theory Spec2Isabelle
  imports Complex_Main "HOL-Library.Multiset"
begin

section \<open>The linear SVM command-line program (linear_svm_main.cpp)\<close>

text \<open>
  The program is one procedure, \<open>mlpackMain\<close>, and one helper, \<open>NumberOfClasses\<close>.
  It reads command-line parameters, checks them, derives the labels and the number of
  classes, calls the external model (\<open>LinearSVM::Train\<close>, \<open>LinearSVM::Classify\<close>) and
  reports accuracies. The model below follows the procedure block by block. Its effects
  are written out: everything streamed to \<open>Log::Warn\<close> and \<open>Log::Info\<close> and every call
  of the external model is an event of a trace, and a run that streams to \<open>Log::Fatal\<close>
  stops with an error value.
\<close>

subsection \<open>Values\<close>

text \<open>
  A C++ \<open>double\<close>, as far as the program looks at it: the comparisons \<open>x >= 0.0\<close> of the
  parameter checks and the quotients of two counts in the accuracy report. A finite
  value is its real number (the rounding of a quotient is not modelled), and the three
  special values are kept since \<open>0 / 0.0\<close> is NaN and not a trap.
\<close>

datatype double = Finite real | PosInf | NegInf | NaN

text \<open>The test \<open>x >= 0.0\<close>: false on NaN.\<close>

fun ge_zero :: "double \<Rightarrow> bool" where
  "ge_zero (Finite r) = (0 \<le> r)"
| "ge_zero PosInf = True"
| "ge_zero NegInf = False"
| "ge_zero NaN = False"

text \<open>\<open>a / static_cast<double>(b)\<close> for two counts \<open>a\<close> and \<open>b\<close> of type \<open>size_t\<close>.\<close>

definition count_quotient :: "nat \<Rightarrow> nat \<Rightarrow> double" where
  "count_quotient a b =
     (if b = 0 then (if a = 0 then NaN else PosInf) else Finite (real a / real b))"

text \<open>
  \<open>size_t\<close> is taken to be 64 bits wide. The cast \<open>(size_t) x\<close> of an \<open>int\<close> and the
  subtraction of two \<open>size_t\<close> values wrap around.
\<close>

definition size_t_of_int :: "int \<Rightarrow> nat" where
  "size_t_of_int x = nat (x mod 2 ^ 64)"

definition size_t_minus :: "nat \<Rightarrow> nat \<Rightarrow> nat" where
  "size_t_minus a b = nat ((int a - int b) mod 2 ^ 64)"

text \<open>
  An \<open>arma::mat\<close>: its column count and its rows. The row count is the number of rows
  stored. \<open>row\<close> and \<open>shed_row\<close> are only called below with an index in range.
\<close>

record 'd mat =
  n_cols :: nat
  mat_rows :: "'d list list"

definition n_rows :: "'d mat \<Rightarrow> nat" where
  "n_rows M = length (mat_rows M)"

definition empty_mat :: "'d mat" where
  "empty_mat = \<lparr>n_cols = 0, mat_rows = []\<rparr>"

definition row :: "'d mat \<Rightarrow> nat \<Rightarrow> 'd list" where
  "row M i = mat_rows M ! i"

definition shed_row :: "'d mat \<Rightarrow> nat \<Rightarrow> 'd mat" where
  "shed_row M i = M\<lparr>mat_rows := take i (mat_rows M) @ drop (Suc i) (mat_rows M)\<rparr>"

text \<open>The fields of \<open>LinearSVM<>\<close> that the program reads or writes.\<close>

record 'd LinearSVM =
  Lambda :: double
  Delta :: double
  FitIntercept :: bool
  NumClasses :: nat
  Parameters :: "'d mat"

text \<open>
  The two optimizers as the program configures them: \<open>ens::L_BFGS\<close> with
  \<open>MaxIterations\<close> and \<open>MinGradientNorm\<close>, and \<open>ens::ParallelSGD\<close> with its maximum
  number of iterations, the share of each thread, the tolerance, the shuffle flag and
  the step of its \<open>ens::ConstantStep\<close> policy.
\<close>

datatype ens_optimizer =
  L_BFGS nat double
| ParallelSGD nat nat double bool double

subsection \<open>Command-line parameters\<close>

text \<open>
  One field for each parameter the program declares. A matrix, row or model parameter
  that was not passed is \<open>None\<close>. The numeric and string parameters hold their default
  when they were not passed; of these the program asks only for \<open>step_size\<close> whether
  it was passed. The three output parameters only record whether they were passed.
\<close>

record 'd params =
  training :: "'d mat option"
  labels :: "nat list option"
  lambda :: double
  delta :: double
  number_of_classes :: int
  no_intercept :: bool
  optimizer :: string
  tolerance :: double
  max_iterations :: int
  step_size :: double
  step_size_passed :: bool
  shuffle :: bool
  input_model :: "'d LinearSVM option"
  output_model_passed :: bool
  test :: "'d mat option"
  test_labels :: "nat list option"
  predictions_passed :: bool
  score_passed :: bool

text \<open>\<open>CLI::HasParam(name)\<close>, for the names the program asks about.\<close>

definition HasParam :: "'d params \<Rightarrow> string \<Rightarrow> bool" where
  "HasParam p name =
     (if name = ''training'' then training p \<noteq> None
      else if name = ''labels'' then labels p \<noteq> None
      else if name = ''input_model'' then input_model p \<noteq> None
      else if name = ''test'' then test p \<noteq> None
      else if name = ''test_labels'' then test_labels p \<noteq> None
      else if name = ''no_intercept'' then no_intercept p
      else if name = ''step_size'' then step_size_passed p
      else if name = ''shuffle'' then shuffle p
      else if name = ''output_model'' then output_model_passed p
      else if name = ''predictions'' then predictions_passed p
      else if name = ''score'' then score_passed p
      else False)"

subsection \<open>The external collaborators\<close>

text \<open>
  What the program calls and does not define: whether it was compiled with OpenMP, the
  model made by \<open>new LinearSVM<>\<close>, \<open>LinearSVM::Train\<close> (it returns the model it has
  updated), the two overloads of \<open>LinearSVM::Classify\<close>, the conversion of a matrix
  element to \<open>size_t\<close> done by \<open>arma::conv_to\<close>, and the share
  \<open>ceil((float) n_cols / omp_get_max_threads())\<close> of a thread.
\<close>

record 'd env =
  has_openmp :: bool
  new_LinearSVM :: "'d LinearSVM"
  Train :: "'d LinearSVM \<Rightarrow> 'd mat \<Rightarrow> nat list \<Rightarrow> nat \<Rightarrow> ens_optimizer \<Rightarrow> 'd LinearSVM"
  Classify :: "'d LinearSVM \<Rightarrow> 'd mat \<Rightarrow> nat list"
  Classify_score :: "'d LinearSVM \<Rightarrow> 'd mat \<Rightarrow> 'd mat"
  conv_to_size_t :: "'d \<Rightarrow> nat"
  thread_share :: "nat \<Rightarrow> nat"

subsection \<open>Effects\<close>

text \<open>
  The trace of a run. A message is its text; the numbers streamed into it are kept
  beside the text. The two accuracy lines keep the quotient and the two counts they
  print. \<open>Fatal\<close> is the error raised by streaming to \<open>Log::Fatal\<close>; \<open>OutOfBounds\<close> is an
  access past the end of a \<open>std::vector\<close> or an Armadillo row.
\<close>

datatype 'd event =
  Warn string
| Info string
| ClassAccuracy nat double nat nat
| TotalAccuracy double nat nat
| Train_call "'d mat" "nat list" nat ens_optimizer
| Classify_call "'d mat"

datatype error = Fatal string "nat list" | OutOfBounds

type_synonym ('d, 'a) run = "'d event list \<times> (error + 'a)"

definition result :: "'a \<Rightarrow> ('d, 'a) run" where
  "result x = ([], Inr x)"

definition emit :: "'d event \<Rightarrow> ('d, unit) run" where
  "emit e = ([e], Inr ())"

definition Log_Fatal :: "string \<Rightarrow> nat list \<Rightarrow> ('d, 'a) run" where
  "Log_Fatal msg ns = ([], Inl (Fatal msg ns))"

definition and_then :: "('d, 'a) run \<Rightarrow> ('a \<Rightarrow> ('d, 'b) run) \<Rightarrow> ('d, 'b) run" where
  "and_then m f =
     (case m of
        (es, Inl e) \<Rightarrow> (es, Inl e)
      | (es, Inr x) \<Rightarrow> (case f x of (es', r) \<Rightarrow> (es @ es', r)))"

text \<open>A sequence of statements that return nothing.\<close>

fun in_order :: "('d, unit) run list \<Rightarrow> ('d, unit) run" where
  "in_order [] = result ()"
| "in_order (m # ms) = and_then m (\<lambda>_. in_order ms)"

definition run_if :: "bool \<Rightarrow> ('d, unit) run \<Rightarrow> ('d, unit) run" where
  "run_if b m = (if b then m else result ())"

subsection \<open>\<open>NumberOfClasses\<close>\<close>

text \<open>The size of the \<open>std::set\<close> built from the labels is the number of distinct labels.\<close>

definition NumberOfClasses :: "nat \<Rightarrow> nat list \<Rightarrow> nat" where
  "NumberOfClasses numClasses labels_row =
     (if numClasses = 0 then card (set labels_row) else numClasses)"

subsection \<open>Reading parameters and the parameter checks\<close>

text \<open>\<open>CLI::GetParam\<close> of a matrix, row or model parameter: empty when it was not passed.\<close>

definition GetParam_mat :: "'d mat option \<Rightarrow> 'd mat" where
  "GetParam_mat x = (case x of Some M \<Rightarrow> M | None \<Rightarrow> empty_mat)"

definition GetParam_row :: "nat list option \<Rightarrow> nat list" where
  "GetParam_row x = (case x of Some r \<Rightarrow> r | None \<Rightarrow> [])"

text \<open>
  Modelled from the spec: the bodies of \<open>RequireAtLeastOnePassed\<close>,
  \<open>ReportIgnoredParam\<close>, \<open>RequireParamValue\<close> and \<open>RequireParamInSet\<close> (mlpack's
  parameter checks) are not part of the source file; only their calls are. Following
  the spec, a failed check whose \<open>fatal\<close> argument is true terminates the run with the
  message of the call, and one whose \<open>fatal\<close> argument is false only warns. The
  condition of \<open>RequireParamValue\<close> is the source's lambda applied to the parameter.
\<close>

definition RequireAtLeastOnePassed ::
  "'d params \<Rightarrow> string list \<Rightarrow> bool \<Rightarrow> string \<Rightarrow> ('d, unit) run" where
  "RequireAtLeastOnePassed p names fatal_flag msg =
     (if list_ex (HasParam p) names then result ()
      else if fatal_flag then Log_Fatal msg [] else emit (Warn msg))"

definition ReportIgnoredParam ::
  "'d params \<Rightarrow> (string \<times> bool) list \<Rightarrow> string \<Rightarrow> ('d, unit) run" where
  "ReportIgnoredParam p constraints name =
     (if HasParam p name \<and> list_all (\<lambda>(n, b). HasParam p n = b) constraints
      then emit (Warn name) else result ())"

definition RequireParamValue :: "string \<Rightarrow> bool \<Rightarrow> bool \<Rightarrow> string \<Rightarrow> ('d, unit) run" where
  "RequireParamValue name holds fatal_flag msg =
     (if holds then result ()
      else if fatal_flag then Log_Fatal msg [] else emit (Warn msg))"

definition RequireParamInSet ::
  "string \<Rightarrow> string \<Rightarrow> string list \<Rightarrow> bool \<Rightarrow> string \<Rightarrow> ('d, unit) run" where
  "RequireParamInSet name v allowed fatal_flag msg =
     (if v \<in> set allowed then result ()
      else if fatal_flag then Log_Fatal msg [] else emit (Warn msg))"

text \<open>Lines 164 to 217 of the source: the checks, in the order of the source.\<close>

definition check_params :: "'d params \<Rightarrow> ('d, unit) run" where
  "check_params p = in_order
     [RequireAtLeastOnePassed p [''training'', ''input_model''] True [],
      RequireAtLeastOnePassed p [''output_model'', ''predictions'', ''score''] False
        ''no output will be saved'',
      ReportIgnoredParam p [(''test'', False)] ''predictions'',
      ReportIgnoredParam p [(''test'', False)] ''score'',
      ReportIgnoredParam p [(''test'', False)] ''test_labels'',
      RequireParamValue ''max_iterations'' (0 \<le> max_iterations p) True
        ''max_iterations must be positive or zero'',
      RequireParamValue ''tolerance'' (ge_zero (tolerance p)) True
        ''tolerance must be positive or zero'',
      RequireParamInSet ''optimizer'' (optimizer p) [''lbfgs'', ''psgd''] True
        ''unknown optimizer'',
      RequireParamValue ''lambda'' (ge_zero (lambda p)) True
        ''lambda must be positive or zero'',
      RequireParamValue ''number_of_classes'' (0 \<le> number_of_classes p) True
        ''number of classes must be greater than or equal to 0 (equal to 0 in case of unspecified.)'',
      RequireParamValue ''delta'' (ge_zero (delta p)) True
        ''Margin of difference between correct class and other classes'',
      RequireParamValue ''step_size'' (ge_zero (step_size p)) True
        ''step size must be positive'',
      run_if (optimizer p \<noteq> ''psgd'')
        (in_order
           [run_if (HasParam p ''step_size'')
              (emit (Warn ''step_size ignored because optimizer type is not 'psgd'.'')),
            run_if (HasParam p ''shuffle'')
              (emit (Warn ''shuffle ignored because optimizer type is not 'psgd'.''))])]"

subsection \<open>Labels\<close>

text \<open>
  Lines 238 to 261: the labels come from the \<open>labels\<close> parameter, or else from the last
  row of the training matrix, which is then shed. The result is the training matrix
  and the labels as the rest of the program sees them.
\<close>

definition load_labels :: "'d env \<Rightarrow> 'd params \<Rightarrow> 'd mat \<Rightarrow> ('d, 'd mat \<times> nat list) run" where
  "load_labels E p trainingSet =
     (if HasParam p ''training'' \<and> HasParam p ''labels'' then
        (let labels_row = GetParam_row (labels p) in
         if n_cols trainingSet \<noteq> length labels_row
         then Log_Fatal ''The labels must have the same number of points as the training dataset.'' []
         else result (trainingSet, labels_row))
      else if HasParam p ''training'' then
        (if n_rows trainingSet < 2
         then Log_Fatal ''Can't get labels from training data since it has less than 2 rows.'' []
         else result
           (shed_row trainingSet (n_rows trainingSet - 1),
            map (conv_to_size_t E) (row trainingSet (n_rows trainingSet - 1))))
      else result (trainingSet, []))"

subsection \<open>Training\<close>

text \<open>
  Lines 267 to 309. The \<open>psgd\<close> branch exists only in a build with OpenMP; a build
  without it has the fatal \<open>else\<close> branch instead.
\<close>

definition train_block ::
  "'d env \<Rightarrow> 'd params \<Rightarrow> 'd LinearSVM \<Rightarrow> 'd mat \<Rightarrow> nat list \<Rightarrow> nat \<Rightarrow> ('d, 'd LinearSVM) run" where
  "train_block E p model0 trainingSet labels_row numClasses =
     (if HasParam p ''training'' then
        (let model = model0\<lparr>Lambda := lambda p, Delta := delta p,
               FitIntercept := (if HasParam p ''no_intercept'' then False else True),
               NumClasses := numClasses\<rparr>;
             maxIterations = size_t_of_int (max_iterations p)
         in
         if optimizer p = ''lbfgs'' then
           (let lbfgsOpt = L_BFGS maxIterations (tolerance p) in
            and_then (emit (Info ''Training model with L-BFGS optimizer.'')) (\<lambda>_.
            and_then (emit (Train_call trainingSet labels_row numClasses lbfgsOpt)) (\<lambda>_.
            result (Train E model trainingSet labels_row numClasses lbfgsOpt))))
         else if has_openmp E then
           (if optimizer p = ''psgd'' then
              (let psgdOpt = ParallelSGD maxIterations (thread_share E (n_cols trainingSet))
                     (tolerance p) (\<not> HasParam p ''shuffle'') (step_size p) in
               and_then (emit (Info ''Training model with ParallelSGD optimizer.'')) (\<lambda>_.
               and_then (emit (Train_call trainingSet labels_row numClasses psgdOpt)) (\<lambda>_.
               result (Train E model trainingSet labels_row numClasses psgdOpt))))
            else result model)
         else Log_Fatal ''OpenMP is not specified cannot use ParallelSGD'' [])
      else result model0)"

subsection \<open>Accuracy\<close>

text \<open>
  Lines 353 to 362: one pass over the indices of the predictions. \<open>bingoLabels\<close> and
  \<open>labelSize\<close> have \<open>numClasses\<close> entries, and an index past their end, or past the end
  of the test labels, is an error. The counts never exceed the number of predictions,
  so the increments do not wrap.
\<close>

definition count_step ::
  "nat list \<Rightarrow> nat list \<Rightarrow> nat \<Rightarrow> error + nat list \<times> nat list \<Rightarrow> error + nat list \<times> nat list" where
  "count_step predictions testLabels i acc =
     (case acc of
        Inl e \<Rightarrow> Inl e
      | Inr (bingoLabels, labelSize) \<Rightarrow>
          if length testLabels \<le> i then Inl OutOfBounds
          else if predictions ! i = testLabels ! i \<and> length bingoLabels \<le> testLabels ! i
          then Inl OutOfBounds
          else if length labelSize \<le> testLabels ! i then Inl OutOfBounds
          else Inr
            (if predictions ! i = testLabels ! i
             then bingoLabels[testLabels ! i := bingoLabels ! (testLabels ! i) + 1]
             else bingoLabels,
             labelSize[testLabels ! i := labelSize ! (testLabels ! i) + 1]))"

definition count_correct ::
  "nat \<Rightarrow> nat list \<Rightarrow> nat list \<Rightarrow> error + nat list \<times> nat list" where
  "count_correct numClasses predictions testLabels =
     fold (count_step predictions testLabels) [0..<length predictions]
       (Inr (replicate numClasses 0, replicate numClasses 0))"

text \<open>Lines 364 to 375: one line for each class, then the total.\<close>

definition report_step ::
  "nat list \<Rightarrow> nat list \<Rightarrow> nat \<Rightarrow> 'd event list \<times> nat \<Rightarrow> 'd event list \<times> nat" where
  "report_step bingoLabels labelSize i acc =
     (case acc of (es, totalBingo) \<Rightarrow>
        (es @ [ClassAccuracy i (count_quotient (bingoLabels ! i) (labelSize ! i))
                 (bingoLabels ! i) (labelSize ! i)],
         totalBingo + bingoLabels ! i))"

definition report_accuracy :: "nat list \<Rightarrow> nat list \<Rightarrow> nat \<Rightarrow> 'd event list" where
  "report_accuracy bingoLabels labelSize n_elem =
     (case fold (report_step bingoLabels labelSize) [0..<length bingoLabels] ([], 0) of
        (es, totalBingo) \<Rightarrow>
          es @ [TotalAccuracy (count_quotient totalBingo n_elem) totalBingo n_elem])"

text \<open>Lines 340 to 376, entered when \<open>test_labels\<close> was passed.\<close>

definition accuracy_block ::
  "'d mat \<Rightarrow> nat list \<Rightarrow> nat list \<Rightarrow> nat \<Rightarrow> ('d, unit) run" where
  "accuracy_block testSet predictions testLabels numClasses =
     and_then
       (run_if (n_cols testSet \<noteq> length testLabels)
          (Log_Fatal ''Test data given with test has % points, but labels in test_labels have % labels!''
             [n_cols testSet, length testLabels])) (\<lambda>_.
     case count_correct numClasses predictions testLabels of
       Inl e \<Rightarrow> ([], Inl e)
     | Inr (bingoLabels, labelSize) \<Rightarrow>
         (report_accuracy bingoLabels labelSize (length predictions), Inr ()))"

subsection \<open>Testing\<close>

text \<open>Lines 310 to 385. The result is what the run stores in \<open>predictions\<close> and \<open>score\<close>.\<close>

definition test_block ::
  "'d env \<Rightarrow> 'd params \<Rightarrow> 'd LinearSVM \<Rightarrow> nat \<Rightarrow> ('d, nat list option \<times> 'd mat option) run" where
  "test_block E p model numClasses =
     (if HasParam p ''test'' then
        (let testSet = GetParam_mat (test p) in
         and_then
           (run_if (n_rows testSet \<noteq> size_t_minus (n_rows (Parameters model)) 1)
              (Log_Fatal ''Test data dimensionality (%) must be the same as the dimensionality of the training data (%)!''
                 [n_rows testSet, size_t_minus (n_rows (Parameters model)) 1])) (\<lambda>_.
         and_then
           (if HasParam p ''score'' then
              and_then (emit (Info ''Calculating class score of points in test.'')) (\<lambda>_.
              and_then (emit (Classify_call testSet)) (\<lambda>_.
              result (Some (Classify_score E model testSet))))
            else result None) (\<lambda>score.
         and_then (emit (Classify_call testSet)) (\<lambda>_.
         let predictions = Classify E model testSet in
         and_then
           (run_if (HasParam p ''test_labels'')
              (accuracy_block testSet predictions (GetParam_row (test_labels p)) numClasses)) (\<lambda>_.
         and_then
           (if HasParam p ''predictions'' then
              and_then (emit (Info ''Predicting classes of points in test.'')) (\<lambda>_.
              result (Some predictions))
            else result None) (\<lambda>predictions_out.
         result (predictions_out, score)))))))
      else result (None, None))"

subsection \<open>\<open>mlpackMain\<close>\<close>

text \<open>What a run that returns leaves in the three output parameters.\<close>

record 'd outcome =
  output_model :: "'d LinearSVM"
  predictions :: "nat list option"
  score :: "'d mat option"

text \<open>
  Lines 219 to 309: the training matrix and the model are loaded, the labels and the
  number of classes are derived, and the model is trained if a training matrix was
  passed. The result is the model and the number of classes as the test block sees them.
\<close>

definition train_model :: "'d env \<Rightarrow> 'd params \<Rightarrow> ('d, 'd LinearSVM \<times> nat) run" where
  "train_model E p =
     (let trainingSet0 = (if HasParam p ''training'' then GetParam_mat (training p) else empty_mat);
          model0 = (case input_model p of Some m \<Rightarrow> m | None \<Rightarrow> new_LinearSVM E)
      in
      and_then (load_labels E p trainingSet0) (\<lambda>(trainingSet, labels_row).
      let numClasses = NumberOfClasses (size_t_of_int (number_of_classes p)) labels_row in
      and_then (train_block E p model0 trainingSet labels_row numClasses) (\<lambda>model.
      result (model, numClasses))))"

text \<open>Lines 219 to 387: everything after the parameter checks.\<close>

definition load_and_run :: "'d env \<Rightarrow> 'd params \<Rightarrow> ('d, 'd outcome) run" where
  "load_and_run E p =
     and_then (train_model E p) (\<lambda>(model, numClasses).
     and_then (test_block E p model numClasses) (\<lambda>(predictions_out, score_out).
     result \<lparr>output_model = model, predictions = predictions_out, score = score_out\<rparr>))"

definition mlpackMain :: "'d env \<Rightarrow> 'd params \<Rightarrow> ('d, 'd outcome) run" where
  "mlpackMain E p = and_then (check_params p) (\<lambda>_. load_and_run E p)"

section \<open>Properties\<close>

subsection \<open>Vocabulary of the statements\<close>

text \<open>A run that ended at \<open>Log::Fatal\<close>.\<close>

fun is_fatal :: "error + 'a \<Rightarrow> bool" where
  "is_fatal (Inl (Fatal msg ns)) = True"
| "is_fatal (Inl OutOfBounds) = False"
| "is_fatal (Inr x) = False"

fun is_Warn :: "'d event \<Rightarrow> bool" where
  "is_Warn (Warn w) = True"
| "is_Warn e = False"

fun is_accuracy :: "'d event \<Rightarrow> bool" where
  "is_accuracy (ClassAccuracy c a b n) = True"
| "is_accuracy (TotalAccuracy a b n) = True"
| "is_accuracy e = False"

fun is_Train_call :: "'d event \<Rightarrow> bool" where
  "is_Train_call (Train_call M ls nc opt) = True"
| "is_Train_call e = False"

text \<open>A \<open>double\<close> below zero, and a \<open>double\<close> in the interval from 0 to 1.\<close>

fun is_negative :: "double \<Rightarrow> bool" where
  "is_negative (Finite r) = (r < 0)"
| "is_negative NegInf = True"
| "is_negative PosInf = False"
| "is_negative NaN = False"

fun in_unit_interval :: "double \<Rightarrow> bool" where
  "in_unit_interval (Finite r) = (0 \<le> r \<and> r \<le> 1)"
| "in_unit_interval x = False"

text \<open>The conditions of the fatal parameter checks, taken together.\<close>

definition params_ok :: "'d params \<Rightarrow> bool" where
  "params_ok p \<longleftrightarrow>
     (training p \<noteq> None \<or> input_model p \<noteq> None) \<and> 0 \<le> max_iterations p \<and>
     ge_zero (tolerance p) \<and> (optimizer p = ''lbfgs'' \<or> optimizer p = ''psgd'') \<and>
     ge_zero (lambda p) \<and> 0 \<le> number_of_classes p \<and> ge_zero (delta p) \<and>
     ge_zero (step_size p)"

text \<open>
  A concrete setting for the examples: a build without OpenMP, a training routine that
  sizes the parameter matrix with one more row than the training matrix, a classifier
  that predicts class 0 for every point, and a run that trains on four points whose
  labels are the last row of the matrix and then tests on two points.
\<close>

definition example_env :: "nat env" where
  "example_env =
     \<lparr>has_openmp = False,
      new_LinearSVM = \<lparr>Lambda = Finite 0, Delta = Finite 1, FitIntercept = False,
        NumClasses = 0, Parameters = empty_mat\<rparr>,
      Train = (\<lambda>m X ls nc opt.
        m\<lparr>Parameters := \<lparr>n_cols = nc, mat_rows = replicate (n_rows X + 1) (replicate nc 0)\<rparr>\<rparr>),
      Classify = (\<lambda>m X. replicate (n_cols X) 0),
      Classify_score = (\<lambda>m X. X),
      conv_to_size_t = id,
      thread_share = id\<rparr>"

definition example_params :: "nat params" where
  "example_params =
     \<lparr>training = Some \<lparr>n_cols = 4, mat_rows = [[5, 6, 7, 8], [0, 0, 1, 2]]\<rparr>,
      labels = None, lambda = Finite 0, delta = Finite 0, number_of_classes = 0,
      no_intercept = False, optimizer = ''lbfgs'', tolerance = Finite 0,
      max_iterations = 0, step_size = Finite 0, step_size_passed = False,
      shuffle = False, input_model = None, output_model_passed = True,
      test = Some \<lparr>n_cols = 2, mat_rows = [[1, 2]]\<rparr>, test_labels = None,
      predictions_passed = True, score_passed = False\<rparr>"

text \<open>
  The number of points whose prediction and label are both the class \<open>c\<close>, and the number
  of points whose prediction equals the label.
\<close>

definition hits_of_class :: "nat list \<Rightarrow> nat list \<Rightarrow> nat \<Rightarrow> nat" where
  "hits_of_class ps ls c = count_list (zip ps ls) (c, c)"

definition hits :: "nat list \<Rightarrow> nat list \<Rightarrow> nat" where
  "hits ps ls = length (filter (\<lambda>(p, l). p = l) (zip ps ls))"

text \<open>The text of the fatal message of the dimensionality check (lines 322 to 324).\<close>

definition dimensionality_message :: string where
  "dimensionality_message =
     ''Test data dimensionality (%) must be the same as the dimensionality of the training data (%)!''"

text \<open>The model that \<open>example_env\<close> trains from \<open>example_params\<close>.\<close>

definition example_trained :: "nat LinearSVM" where
  "example_trained =
     \<lparr>Lambda = Finite 0, Delta = Finite 0, FitIntercept = True, NumClasses = 3,
      Parameters = \<lparr>n_cols = 3, mat_rows = [[0, 0, 0], [0, 0, 0]]\<rparr>\<rparr>"

subsection \<open>Runs and their traces\<close>

lemma snd_and_then:
  "snd (and_then m f) = (case snd m of Inl e \<Rightarrow> Inl e | Inr x \<Rightarrow> snd (f x))"
  by (cases m) (auto simp: and_then_def split: sum.splits prod.splits)

lemma fst_and_then:
  "fst (and_then m f) = (case snd m of Inl e \<Rightarrow> fst m | Inr x \<Rightarrow> fst m @ fst (f x))"
  by (cases m) (auto simp: and_then_def split: sum.splits prod.splits)

lemma run_simps [simp]:
  "snd (result x) = Inr x" "fst (result x) = []"
  "snd (emit e) = Inr ()" "fst (emit e) = [e]"
  "snd (Log_Fatal msg ns) = Inl (Fatal msg ns)" "fst (Log_Fatal msg ns) = []"
  by (simp_all add: result_def emit_def Log_Fatal_def)

lemma and_then_fails: "snd m = Inl e \<Longrightarrow> and_then m f = (fst m, Inl e)"
  by (cases m) (simp add: and_then_def)

lemma and_then_goes_on: "snd m = Inr x \<Longrightarrow> and_then m f = (fst m @ fst (f x), snd (f x))"
  by (cases m) (simp add: and_then_def split: prod.splits)

subsection \<open>The parameter checks\<close>

lemma snd_in_order_Cons:
  "snd (in_order (m # ms)) = (case snd m of Inl e \<Rightarrow> Inl e | Inr u \<Rightarrow> snd (in_order ms))"
  by (simp add: snd_and_then)

lemma snd_in_order_Nil: "snd (in_order []) = Inr ()"
  by simp

lemma snd_checks:
  "snd (RequireAtLeastOnePassed p names True msg) =
     (if list_ex (HasParam p) names then Inr () else Inl (Fatal msg []))"
  "snd (RequireAtLeastOnePassed p names False msg) = Inr ()"
  "snd (ReportIgnoredParam p cs name) = Inr ()"
  "snd (RequireParamValue name holds True msg) = (if holds then Inr () else Inl (Fatal msg []))"
  "snd (RequireParamInSet name v allowed True msg) =
     (if v \<in> set allowed then Inr () else Inl (Fatal msg []))"
  "snd (run_if b (emit e)) = Inr ()"
  by (simp_all add: RequireAtLeastOnePassed_def ReportIgnoredParam_def RequireParamValue_def
      RequireParamInSet_def run_if_def)

lemma snd_warn_ignored:
  "snd (run_if b (in_order [run_if c (emit e), run_if d (emit e')])) = Inr ()"
  by (simp add: run_if_def snd_and_then)

text \<open>The first check that fails decides the message.\<close>

lemma snd_check_params:
  "snd (check_params p) =
     (if \<not> (training p \<noteq> None \<or> input_model p \<noteq> None) then Inl (Fatal [] [])
      else if \<not> 0 \<le> max_iterations p
        then Inl (Fatal ''max_iterations must be positive or zero'' [])
      else if \<not> ge_zero (tolerance p)
        then Inl (Fatal ''tolerance must be positive or zero'' [])
      else if \<not> (optimizer p = ''lbfgs'' \<or> optimizer p = ''psgd'')
        then Inl (Fatal ''unknown optimizer'' [])
      else if \<not> ge_zero (lambda p)
        then Inl (Fatal ''lambda must be positive or zero'' [])
      else if \<not> 0 \<le> number_of_classes p
        then Inl (Fatal ''number of classes must be greater than or equal to 0 (equal to 0 in case of unspecified.)'' [])
      else if \<not> ge_zero (delta p)
        then Inl (Fatal ''Margin of difference between correct class and other classes'' [])
      else if \<not> ge_zero (step_size p)
        then Inl (Fatal ''step size must be positive'' [])
      else Inr ())"
  unfolding check_params_def
  by (simp only: snd_in_order_Cons snd_in_order_Nil snd_checks snd_warn_ignored)
     (simp add: HasParam_def)

lemma check_params_ok: "snd (check_params p) = Inr () \<longleftrightarrow> params_ok p"
  by (simp add: snd_check_params params_ok_def)

lemma check_params_fatal: "\<not> params_ok p \<Longrightarrow> is_fatal (snd (check_params p))"
  by (auto simp: snd_check_params params_ok_def)

lemma list_all_in_order:
  "list_all (\<lambda>m. list_all P (fst m)) ms \<Longrightarrow> list_all P (fst (in_order ms))"
  by (induction ms) (auto simp: fst_and_then split: sum.splits)

lemma fst_checks_warn:
  "list_all is_Warn (fst (RequireAtLeastOnePassed p names f msg :: ('d, unit) run))"
  "list_all is_Warn (fst (ReportIgnoredParam p cs name :: ('d, unit) run))"
  "list_all is_Warn (fst (RequireParamValue name holds f msg :: ('d, unit) run))"
  "list_all is_Warn (fst (RequireParamInSet name v allowed f msg :: ('d, unit) run))"
  "list_all is_Warn (fst (run_if b (emit (Warn w)) :: ('d, unit) run))"
  by (simp_all add: RequireAtLeastOnePassed_def ReportIgnoredParam_def RequireParamValue_def
      RequireParamInSet_def run_if_def)

lemma warn_block:
  "list_all is_Warn
     (fst (run_if b (in_order [run_if c (emit (Warn w)), run_if d (emit (Warn w'))])))"
  by (simp add: run_if_def fst_and_then snd_and_then)

lemma check_params_warns: "list_all is_Warn (fst (check_params p))"
  unfolding check_params_def
  by (intro list_all_in_order)
     (simp add: fst_checks_warn warn_block del: in_order.simps)

text \<open>A run whose parameters fail a check ends there, with warnings only before it.\<close>

lemma mlpackMain_rejected:
  assumes bad: "\<not> params_ok p"
  shows "\<exists>e. snd (check_params p) = Inl e \<and> mlpackMain E p = (fst (check_params p), Inl e)"
    and "is_fatal (snd (mlpackMain E p))"
    and "list_all is_Warn (fst (mlpackMain E p))"
proof -
  obtain e where e: "snd (check_params p) = Inl e"
    using bad check_params_ok [of p] by (cases "snd (check_params p)") auto
  have m: "mlpackMain E p = (fst (check_params p), Inl e)"
    unfolding mlpackMain_def by (rule and_then_fails [OF e])
  from e m show "\<exists>e. snd (check_params p) = Inl e \<and> mlpackMain E p = (fst (check_params p), Inl e)"
    by blast
  from e m check_params_fatal [OF bad] show "is_fatal (snd (mlpackMain E p))"
    by (cases e) simp_all
  from m check_params_warns [of p] show "list_all is_Warn (fst (mlpackMain E p))"
    by simp
qed

lemma mlpackMain_accepted:
  "params_ok p \<Longrightarrow>
     mlpackMain E p = (fst (check_params p) @ fst (load_and_run E p), snd (load_and_run E p))"
  unfolding mlpackMain_def by (rule and_then_goes_on) (simp add: check_params_ok)

subsection \<open>The blocks of a run\<close>

lemma is_fatal_and_then:
  "snd m \<noteq> Inl OutOfBounds \<Longrightarrow> (\<And>x. snd m = Inr x \<Longrightarrow> is_fatal (snd (f x))) \<Longrightarrow>
     is_fatal (snd (and_then m f))"
  by (cases "snd m" rule: is_fatal.cases) (simp_all add: snd_and_then)

lemma is_fatal_stays: "is_fatal (snd m) \<Longrightarrow> is_fatal (snd (and_then m f))"
  by (cases "snd m" rule: is_fatal.cases) (simp_all add: snd_and_then)

lemma trace_and_then:
  "list_all P (fst m) \<Longrightarrow> (\<And>x. snd m = Inr x \<Longrightarrow> list_all P (fst (f x))) \<Longrightarrow>
     list_all P (fst (and_then m f))"
  by (cases "snd m") (simp_all add: fst_and_then)

lemma in_trace_and_then:
  "e \<in> set (fst (and_then m f)) \<Longrightarrow>
     e \<in> set (fst m) \<or> (\<exists>x. snd m = Inr x \<and> e \<in> set (fst (f x)))"
  by (cases "snd m") (auto simp: fst_and_then)

lemma accuracy_not_call: "is_accuracy e \<Longrightarrow> \<not> is_Train_call e"
  by (cases e) simp_all

lemma warn_not_accuracy: "is_Warn e \<Longrightarrow> \<not> is_accuracy e \<and> \<not> is_Train_call e"
  by (cases e) simp_all

lemma fst_load_labels: "fst (load_labels E p X) = []"
  by (simp add: load_labels_def Let_def)

lemma load_labels_no_oob: "snd (load_labels E p X) \<noteq> Inl OutOfBounds"
  by (simp add: load_labels_def Let_def)

lemma load_labels_given:
  "training p = Some X \<Longrightarrow> labels p = Some L \<Longrightarrow>
     load_labels E p X =
       (if n_cols X \<noteq> length L
        then ([], Inl (Fatal ''The labels must have the same number of points as the training dataset.'' []))
        else ([], Inr (X, L)))"
  by (simp add: load_labels_def HasParam_def GetParam_row_def Log_Fatal_def result_def)

lemma load_labels_last_row:
  "training p = Some X \<Longrightarrow> labels p = None \<Longrightarrow>
     load_labels E p X =
       (if n_rows X < 2
        then ([], Inl (Fatal ''Can't get labels from training data since it has less than 2 rows.'' []))
        else ([], Inr (shed_row X (n_rows X - 1), map (conv_to_size_t E) (row X (n_rows X - 1)))))"
  by (simp add: load_labels_def HasParam_def Log_Fatal_def result_def)

lemma load_labels_untrained:
  "training p = None \<Longrightarrow> load_labels E p X = ([], Inr (X, []))"
  by (simp add: load_labels_def HasParam_def result_def)

lemma train_block_no_oob: "snd (train_block E p m X L n) \<noteq> Inl OutOfBounds"
  by (simp add: train_block_def Let_def snd_and_then)

lemma train_block_trace:
  "list_all (\<lambda>e. \<not> is_accuracy e) (fst (train_block E p m X L n))"
  by (simp add: train_block_def Let_def snd_and_then fst_and_then)

lemma train_block_calls:
  "Train_call M ls nc opt \<in> set (fst (train_block E p m X L n)) \<Longrightarrow>
     training p \<noteq> None \<and> M = X \<and> ls = L \<and> nc = n \<and>
     (optimizer p = ''lbfgs'' \<and> opt = L_BFGS (size_t_of_int (max_iterations p)) (tolerance p) \<or>
      optimizer p = ''psgd'' \<and> has_openmp E \<and>
      opt = ParallelSGD (size_t_of_int (max_iterations p)) (thread_share E (n_cols X))
        (tolerance p) (\<not> shuffle p) (step_size p))"
  by (auto simp: train_block_def Let_def snd_and_then fst_and_then HasParam_def split: if_splits)

lemma train_model_no_oob: "snd (train_model E p) \<noteq> Inl OutOfBounds"
  unfolding train_model_def Let_def
  by (auto simp: snd_and_then load_labels_no_oob train_block_no_oob split: sum.splits prod.splits)

lemma train_model_trace: "list_all (\<lambda>e. \<not> is_accuracy e) (fst (train_model E p))"
  unfolding train_model_def Let_def
  by (auto intro!: trace_and_then simp: fst_load_labels train_block_trace)

lemma train_model_calls:
  assumes "Train_call M ls nc opt \<in> set (fst (train_model E p))"
  shows "\<exists>X. training p = Some X \<and> snd (load_labels E p X) = Inr (M, ls) \<and>
    nc = NumberOfClasses (size_t_of_int (number_of_classes p)) ls \<and>
    (optimizer p = ''lbfgs'' \<and> opt = L_BFGS (size_t_of_int (max_iterations p)) (tolerance p) \<or>
     optimizer p = ''psgd'' \<and> has_openmp E \<and>
     opt = ParallelSGD (size_t_of_int (max_iterations p)) (thread_share E (n_cols M))
       (tolerance p) (\<not> shuffle p) (step_size p))"
proof -
  let ?X0 = "if HasParam p ''training'' then GetParam_mat (training p) else empty_mat"
  let ?m0 = "case input_model p of Some m \<Rightarrow> m | None \<Rightarrow> new_LinearSVM E"
  from assms obtain X L where
    ld: "snd (load_labels E p ?X0) = Inr (X, L)" and
    ev: "Train_call M ls nc opt \<in> set (fst
      (train_block E p ?m0 X L (NumberOfClasses (size_t_of_int (number_of_classes p)) L)))"
    unfolding train_model_def Let_def
    by (auto dest!: in_trace_and_then simp: fst_load_labels)
  from train_block_calls [OF ev] ld show ?thesis
    by (auto simp: HasParam_def GetParam_mat_def)
qed

lemma report_fold:
  "fold (report_step b s) xs (es, t) =
     (es @ map (\<lambda>i. ClassAccuracy i (count_quotient (b ! i) (s ! i)) (b ! i) (s ! i)) xs,
      t + sum_list (map ((!) b) xs))"
  by (induction xs arbitrary: es t) (simp_all add: report_step_def)

lemma report_accuracy_eq:
  "report_accuracy b s n =
     map (\<lambda>i. ClassAccuracy i (count_quotient (b ! i) (s ! i)) (b ! i) (s ! i)) [0..<length b] @
     [TotalAccuracy (count_quotient (sum_list b) n) (sum_list b) n]"
  by (simp add: report_accuracy_def report_fold map_nth)

lemma accuracy_block_no_calls:
  "list_all (\<lambda>e. is_accuracy e) (fst (accuracy_block T ps ls n))"
  by (auto simp: accuracy_block_def run_if_def fst_and_then snd_and_then report_accuracy_eq
      list_all_iff split: sum.splits)

lemma accuracy_block_mismatch:
  "n_cols T \<noteq> length ls \<Longrightarrow>
     accuracy_block T ps ls n =
       ([], Inl (Fatal ''Test data given with test has % points, but labels in test_labels have % labels!''
          [n_cols T, length ls]))"
  by (simp add: accuracy_block_def run_if_def Log_Fatal_def and_then_def)

lemma test_block_mismatch:
  assumes "test p = Some T" and "test_labels p = Some L" and "n_cols T \<noteq> length L"
  shows "is_fatal (snd (test_block E p m n))"
    and "list_all (\<lambda>e. \<not> is_accuracy e) (fst (test_block E p m n))"
  using assms
  by (auto simp: test_block_def Let_def HasParam_def GetParam_mat_def GetParam_row_def
      run_if_def snd_and_then fst_and_then accuracy_block_mismatch)

lemma test_block_no_training:
  "list_all (\<lambda>e. \<not> is_Train_call e) (fst (test_block E p m n))"
proof -
  have "list_all (\<lambda>e. \<not> is_Train_call e) (fst (accuracy_block T ps ls n))" for T :: "'a mat" and ps ls
    using accuracy_block_no_calls [of T ps ls n] accuracy_not_call unfolding list_all_iff
    by blast
  then show ?thesis
    unfolding test_block_def Let_def
    by (auto intro!: trace_and_then simp: run_if_def)
qed

lemma load_and_run_test_mismatch:
  assumes "test p = Some T" and "test_labels p = Some L" and "n_cols T \<noteq> length L"
  shows "is_fatal (snd (load_and_run E p))"
    and "list_all (\<lambda>e. \<not> is_accuracy e) (fst (load_and_run E p))"
proof -
  show "is_fatal (snd (load_and_run E p))"
    unfolding load_and_run_def
    by (rule is_fatal_and_then [OF train_model_no_oob])
       (auto intro!: is_fatal_stays test_block_mismatch(1) [OF assms])
  show "list_all (\<lambda>e. \<not> is_accuracy e) (fst (load_and_run E p))"
    unfolding load_and_run_def
    by (auto intro!: trace_and_then train_model_trace test_block_mismatch(2) [OF assms])
qed

lemma train_model_labels_mismatch:
  assumes "training p = Some X" and "labels p = Some L" and "n_cols X \<noteq> length L"
  shows "load_and_run E p =
    ([], Inl (Fatal ''The labels must have the same number of points as the training dataset.'' []))"
proof -
  have "snd (load_labels E p X) =
      Inl (Fatal ''The labels must have the same number of points as the training dataset.'' [])"
    using assms by (simp add: load_labels_given)
  then have "train_model E p =
      ([], Inl (Fatal ''The labels must have the same number of points as the training dataset.'' []))"
    using assms(1) unfolding train_model_def Let_def
    by (simp add: HasParam_def GetParam_mat_def and_then_fails fst_load_labels)
  then show ?thesis
    unfolding load_and_run_def by (simp add: and_then_fails)
qed

lemma main_Train_call:
  assumes "Train_call M ls nc opt \<in> set (fst (mlpackMain E p))"
  shows "params_ok p \<and> Train_call M ls nc opt \<in> set (fst (train_model E p))"
proof (cases "params_ok p")
  case False
  from mlpackMain_rejected(3) [OF False, of E] assms show ?thesis
    by (auto simp: list_all_iff)
next
  case True
  have "Train_call M ls nc opt \<notin> set (fst (check_params p))"
    using check_params_warns [of p] by (auto simp: list_all_iff)
  with assms have "Train_call M ls nc opt \<in> set (fst (load_and_run E p))"
    by (simp add: mlpackMain_accepted [OF True])
  moreover have "Train_call M ls nc opt \<notin> set (fst (test_block E p m n))" for m n
    using test_block_no_training [of E p m n] by (auto simp: list_all_iff)
  ultimately have "Train_call M ls nc opt \<in> set (fst (train_model E p))"
    unfolding load_and_run_def by (auto dest!: in_trace_and_then)
  with True show ?thesis by simp
qed


lemma shed_last_row:
  "1 \<le> n_rows X \<Longrightarrow>
     mat_rows (shed_row X (n_rows X - 1)) = butlast (mat_rows X) \<and>
     n_cols (shed_row X (n_rows X - 1)) = n_cols X \<and>
     Suc (n_rows (shed_row X (n_rows X - 1))) = n_rows X \<and>
     row X (n_rows X - 1) = last (mat_rows X)"
  by (cases "mat_rows X" rule: rev_cases) (simp_all add: shed_row_def n_rows_def row_def)


lemma train_block_trains:
  "training p \<noteq> None \<Longrightarrow> optimizer p = ''lbfgs'' \<or> optimizer p = ''psgd'' \<and> has_openmp E \<Longrightarrow>
     \<exists>opt. Train_call X L n opt \<in> set (fst (train_block E p m X L n))"
  by (auto simp: train_block_def Let_def snd_and_then fst_and_then HasParam_def)


lemma main_trains:
  assumes ok: "params_ok p" and tr: "training p = Some X0"
    and ld: "snd (load_labels E p X0) = Inr (X, L)"
    and opt: "optimizer p = ''lbfgs'' \<or> has_openmp E"
  shows "\<exists>nc opt. Train_call X L nc opt \<in> set (fst (mlpackMain E p))"
proof -
  let ?n = "NumberOfClasses (size_t_of_int (number_of_classes p)) L"
  let ?m0 = "case input_model p of Some m \<Rightarrow> m | None \<Rightarrow> new_LinearSVM E"
  from ok opt have "optimizer p = ''lbfgs'' \<or> optimizer p = ''psgd'' \<and> has_openmp E"
    by (auto simp: params_ok_def)
  with tr obtain opt where "Train_call X L ?n opt \<in> set (fst (train_block E p ?m0 X L ?n))"
    using train_block_trains [of p E X L ?n ?m0] by auto
  then have "Train_call X L ?n opt \<in> set (fst (train_model E p))"
    using tr ld unfolding train_model_def Let_def
    by (simp add: HasParam_def GetParam_mat_def and_then_goes_on fst_and_then split: sum.splits)
  then have "Train_call X L ?n opt \<in> set (fst (load_and_run E p))"
    unfolding load_and_run_def by (auto simp: fst_and_then split: sum.splits)
  then show ?thesis
    by (auto simp: mlpackMain_accepted [OF ok])
qed


lemma size_t_minus_one:
  assumes "a < 2 ^ 64 - 1" and "b < 2 ^ 64"
  shows "(a \<noteq> size_t_minus b 1) = (int a \<noteq> int b - 1)"
proof (cases "b = 0")
  case True
  then have "size_t_minus b 1 = 2 ^ 64 - 1"
    by (simp add: size_t_minus_def)
  with assms True show ?thesis by simp
next
  case False
  then have "(int b - 1) mod 2 ^ 64 = int b - 1"
    using assms(2) by (intro mod_pos_pos_trivial) auto
  then have "size_t_minus b 1 = b - 1"
    using False by (simp add: size_t_minus_def nat_diff_distrib')
  with False show ?thesis by auto
qed

lemma count_fold_error:
  "(\<And>e. acc = Inl e \<Longrightarrow> e = OutOfBounds) \<Longrightarrow>
     fold (count_step ps ls) xs acc = Inl e \<Longrightarrow> e = OutOfBounds"
proof (induction xs arbitrary: acc)
  case Nil
  then show ?case by simp
next
  case (Cons x xs)
  have "\<And>e. count_step ps ls x acc = Inl e \<Longrightarrow> e = OutOfBounds"
    using Cons.prems(1)
    by (auto simp: count_step_def split: sum.splits prod.splits if_splits)
  from Cons.IH [OF this] Cons.prems(2) show ?case by simp
qed

lemma count_correct_error: "count_correct n ps ls = Inl e \<Longrightarrow> e = OutOfBounds"
  using count_fold_error [where acc = "Inr (replicate n 0, replicate n 0)" and e = e
      and ps = ps and ls = ls and xs = "[0..<length ps]"]
  by (simp add: count_correct_def)

lemma is_fatal_Inl: "is_fatal (Inl e) = (e \<noteq> OutOfBounds)"
  by (cases e) simp_all

lemma accuracy_block_match:
  "n_cols T = length ls \<Longrightarrow> \<not> is_fatal (snd (accuracy_block T ps ls n))"
  by (auto simp: accuracy_block_def run_if_def snd_and_then split: sum.splits
      dest: count_correct_error)

lemma test_block_dims_differ:
  "test p = Some T \<Longrightarrow> n_rows T \<noteq> size_t_minus (n_rows (Parameters m)) 1 \<Longrightarrow>
     test_block E p m n =
       ([], Inl (Fatal dimensionality_message [n_rows T, size_t_minus (n_rows (Parameters m)) 1]))"
  by (simp add: test_block_def HasParam_def GetParam_mat_def Let_def run_if_def and_then_fails
      dimensionality_message_def)

lemma test_block_dims_equal:
  assumes "test p = Some T" and "n_rows T = size_t_minus (n_rows (Parameters m)) 1"
  shows "Classify_call T \<in> set (fst (test_block E p m n))"
    and "snd (test_block E p m n) \<noteq> Inl (Fatal dimensionality_message ns)"
    and "is_fatal (snd (test_block E p m n)) \<longleftrightarrow>
      (\<exists>L. test_labels p = Some L \<and> n_cols T \<noteq> length L)"
proof -
  show "Classify_call T \<in> set (fst (test_block E p m n))"
    using assms
    by (simp add: test_block_def HasParam_def GetParam_mat_def Let_def run_if_def
        fst_and_then snd_and_then split: sum.splits)
  have acc: "snd (accuracy_block T ps ls n) \<noteq> Inl (Fatal dimensionality_message ns)" for ps ls
    by (auto simp: accuracy_block_def run_if_def snd_and_then dimensionality_message_def
        split: sum.splits dest: count_correct_error)
  show "snd (test_block E p m n) \<noteq> Inl (Fatal dimensionality_message ns)"
    using assms acc
    by (auto simp: test_block_def HasParam_def GetParam_mat_def Let_def run_if_def
        snd_and_then split: sum.splits)
  show "is_fatal (snd (test_block E p m n)) \<longleftrightarrow>
      (\<exists>L. test_labels p = Some L \<and> n_cols T \<noteq> length L)"
  proof (cases "test_labels p")
    case None
    with assms show ?thesis
      by (simp add: test_block_def HasParam_def GetParam_mat_def Let_def run_if_def
          snd_and_then split: sum.splits)
  next
    case (Some L)
    have "is_fatal (snd (accuracy_block T (Classify E m T) L n)) \<longleftrightarrow> n_cols T \<noteq> length L"
      using accuracy_block_match [of T L "Classify E m T" n]
        accuracy_block_mismatch [of T L "Classify E m T" n] by auto
    with assms Some show ?thesis
      by (auto simp: test_block_def HasParam_def GetParam_mat_def GetParam_row_def Let_def
          run_if_def snd_and_then is_fatal_Inl split: sum.splits)
  qed
qed


lemma train_block_events:
  "e \<in> set (fst (train_block E p m X L n)) \<Longrightarrow> (\<exists>s. e = Info s) \<or> is_Train_call e"
  by (auto simp: train_block_def Let_def fst_and_then snd_and_then split: if_splits)

lemma train_model_events:
  assumes "e \<in> set (fst (train_model E p))"
  shows "(\<exists>s. e = Info s) \<or> is_Train_call e"
proof -
  from assms obtain m X L n where "e \<in> set (fst (train_block E p m X L n))"
    unfolding train_model_def Let_def
    by (auto dest!: in_trace_and_then simp: fst_load_labels)
  then show ?thesis by (rule train_block_events)
qed

lemma load_and_run_tested:
  assumes "snd (train_model E p) = Inr (model, nc)"
  shows "fst (load_and_run E p) = fst (train_model E p) @ fst (test_block E p model nc)"
    and "snd (load_and_run E p) =
      (case snd (test_block E p model nc) of
         Inl e \<Rightarrow> Inl e
       | Inr (a, b) \<Rightarrow> Inr \<lparr>output_model = model, predictions = a, score = b\<rparr>)"
  using assms unfolding load_and_run_def
  by (simp_all add: fst_and_then snd_and_then split: sum.splits prod.splits)

lemma main_tested:
  assumes "params_ok p" and "snd (train_model E p) = Inr (model, nc)"
  shows "fst (mlpackMain E p) =
      fst (check_params p) @ fst (train_model E p) @ fst (test_block E p model nc)"
    and "snd (mlpackMain E p) = Inl e \<longleftrightarrow> snd (test_block E p model nc) = Inl e"
    and "is_fatal (snd (mlpackMain E p)) \<longleftrightarrow> is_fatal (snd (test_block E p model nc))"
  using load_and_run_tested [OF assms(2)] mlpackMain_accepted [OF assms(1), of E]
  by (auto simp: is_fatal_Inl split: sum.splits prod.splits)

subsection \<open>The counting loop\<close>

text \<open>
  After \<open>k\<close> rounds the two vectors hold, for each class, the number of correct
  predictions and the number of test labels among the first \<open>k\<close> points, unless one of
  these labels is not below the number of classes.
\<close>

lemma count_step_Inl: "count_step ps ls i (Inl e) = Inl e"
  by (simp add: count_step_def)

lemma count_step_Inr:
  "i < length ls \<Longrightarrow> length b = n \<Longrightarrow> length s = n \<Longrightarrow>
     count_step ps ls i (Inr (b, s)) =
       (if ls ! i < n
        then Inr (if ps ! i = ls ! i then b[ls ! i := b ! (ls ! i) + 1] else b,
                  s[ls ! i := s ! (ls ! i) + 1])
        else Inl OutOfBounds)"
  by (auto simp: count_step_def)

lemma count_prefix:
  "k \<le> length ps \<Longrightarrow> k \<le> length ls \<Longrightarrow>
     fold (count_step ps ls) [0..<k] (Inr (replicate nc 0, replicate nc 0)) =
       (if \<forall>i<k. ls ! i < nc
        then Inr (map (\<lambda>c. count_list (zip (take k ps) (take k ls)) (c, c)) [0..<nc],
                  map (count_list (take k ls)) [0..<nc])
        else Inl OutOfBounds)"
proof (induction k)
  case 0
  show ?case
    by (simp add: list_eq_iff_nth_eq)
next
  case (Suc k)
  then have k: "k < length ps" "k < length ls"
    by simp_all
  let ?B = "map (\<lambda>c. count_list (zip (take k ps) (take k ls)) (c, c)) [0..<nc]"
  let ?S = "map (count_list (take k ls)) [0..<nc]"
  show ?case
  proof (cases "\<forall>i<k. ls ! i < nc")
    case False
    then have n: "\<not> (\<forall>i<Suc k. ls ! i < nc)"
      using less_Suc_eq by blast
    from False Suc have "fold (count_step ps ls) [0..<k] (Inr (replicate nc 0, replicate nc 0)) =
        Inl OutOfBounds"
      by simp
    then have "fold (count_step ps ls) [0..<Suc k] (Inr (replicate nc 0, replicate nc 0)) =
        Inl OutOfBounds"
      by (simp add: count_step_Inl)
    with n show ?thesis
      by (simp only: if_False)
  next
    case True
    with Suc have f: "fold (count_step ps ls) [0..<k] (Inr (replicate nc 0, replicate nc 0)) =
        Inr (?B, ?S)"
      by simp
    show ?thesis
    proof (cases "ls ! k < nc")
      case False
      then have n: "\<not> (\<forall>i<Suc k. ls ! i < nc)"
        by blast
      from False f k
      have "fold (count_step ps ls) [0..<Suc k] (Inr (replicate nc 0, replicate nc 0)) =
          Inl OutOfBounds"
        by (simp add: count_step_Inr [where n = nc])
      with n show ?thesis
        by (simp only: if_False)
    next
      case l: True
      with True have all: "\<forall>i<Suc k. ls ! i < nc"
        using less_Suc_eq by auto
      have z: "zip (take (Suc k) ps) (take (Suc k) ls) =
          zip (take k ps) (take k ls) @ [(ps ! k, ls ! k)]"
        using k by (simp add: take_Suc_conv_app_nth)
      have B: "(if ps ! k = ls ! k then ?B[ls ! k := ?B ! (ls ! k) + 1] else ?B) =
          map (\<lambda>c. count_list (zip (take (Suc k) ps) (take (Suc k) ls)) (c, c)) [0..<nc]"
        unfolding z using l by (auto simp: list_eq_iff_nth_eq nth_list_update)
      have S: "?S[ls ! k := ?S ! (ls ! k) + 1] = map (count_list (take (Suc k) ls)) [0..<nc]"
        using l k by (auto simp: list_eq_iff_nth_eq nth_list_update take_Suc_conv_app_nth)
      have "count_step ps ls k (Inr (?B, ?S)) =
          Inr (map (\<lambda>c. count_list (zip (take (Suc k) ps) (take (Suc k) ls)) (c, c)) [0..<nc],
               map (count_list (take (Suc k) ls)) [0..<nc])"
        using l k(2) B S by (simp add: count_step_Inr [where n = nc])
      with f have "fold (count_step ps ls) [0..<Suc k] (Inr (replicate nc 0, replicate nc 0)) =
          Inr (map (\<lambda>c. count_list (zip (take (Suc k) ps) (take (Suc k) ls)) (c, c)) [0..<nc],
               map (count_list (take (Suc k) ls)) [0..<nc])"
        by simp
      with all show ?thesis
        by (simp only: if_P)
    qed
  qed
qed

lemma count_correct_eq:
  assumes "length ps = length ls"
  shows "count_correct nc ps ls =
    (if \<forall>l\<in>set ls. l < nc
     then Inr (map (\<lambda>c. count_list (zip ps ls) (c, c)) [0..<nc], map (count_list ls) [0..<nc])
     else Inl OutOfBounds)"
proof -
  have "(\<forall>i<length ps. ls ! i < nc) = (\<forall>l\<in>set ls. l < nc)"
    using assms by (simp add: all_set_conv_all_nth)
  then show ?thesis
    using count_prefix [of "length ps" ps ls nc] assms by (simp add: count_correct_def)
qed

lemma count_zip_le: "length ps = length ls \<Longrightarrow> count_list (zip ps ls) (a, b) \<le> count_list ls b"
  by (induction ps ls rule: list_induct2) auto

lemma sum_indicator:
  "l < nc \<Longrightarrow> sum_list (map (\<lambda>c. if c = l then (1::nat) else 0) [0..<nc]) = 1"
  by (simp add: interv_sum_list_conv_sum_set_nat)

lemma sum_hits_of_class:
  "length ps = length ls \<Longrightarrow> \<forall>l\<in>set ls. l < nc \<Longrightarrow>
     sum_list (map (hits_of_class ps ls) [0..<nc]) = hits ps ls"
proof (induction ps ls rule: list_induct2)
  case Nil
  show ?case by (simp add: hits_of_class_def hits_def)
next
  case (Cons p ps l ls)
  then have IH: "sum_list (map (hits_of_class ps ls) [0..<nc]) = hits ps ls" and l: "l < nc"
    by simp_all
  have "hits_of_class (p # ps) (l # ls) =
      (\<lambda>c. hits_of_class ps ls c + (if p = l then (if c = l then 1 else 0) else 0))"
    by (rule ext) (auto simp: hits_of_class_def)
  then have "sum_list (map (hits_of_class (p # ps) (l # ls)) [0..<nc]) =
      sum_list (map (hits_of_class ps ls) [0..<nc]) +
      sum_list (map (\<lambda>c. if p = l then (if c = l then 1 else 0) else 0) [0..<nc])"
    by (simp add: sum_list_addf)
  also have "sum_list (map (\<lambda>c. if p = l then (if c = l then 1 else 0) else 0) [0..<nc]) =
      (if p = l then 1 else (0::nat))"
    using sum_indicator [OF l] by simp
  finally show ?case
    using IH by (simp add: hits_def)
qed

lemma quotient_in_unit: "0 < b \<Longrightarrow> a \<le> b \<Longrightarrow> in_unit_interval (count_quotient a b)"
  by (simp add: count_quotient_def)

lemma hits_le: "hits ps ls \<le> length ps"
  unfolding hits_def by (rule order_trans [OF length_filter_le]) simp

lemma zip_by_index:
  "length ps = length ls \<Longrightarrow> map (\<lambda>i. (ps ! i, ls ! i)) [0..<length ps] = zip ps ls"
  by (rule nth_equalityI) simp_all

lemma permuted_pairs:
  assumes "length ps = length ls" and "mset order = mset [0..<length ps]"
  shows "mset (zip (map ((!) ps) order) (map ((!) ls) order)) = mset (zip ps ls)"
proof -
  have "zip (map ((!) ps) order) (map ((!) ls) order) = map (\<lambda>i. (ps ! i, ls ! i)) order"
    by (simp add: zip_map_map zip_same_conv_map)
  then have "mset (zip (map ((!) ps) order) (map ((!) ls) order)) =
      image_mset (\<lambda>i. (ps ! i, ls ! i)) (mset order)"
    by simp
  also have "\<dots> = mset (map (\<lambda>i. (ps ! i, ls ! i)) [0..<length ps])"
    unfolding assms(2) by (simp del: mset_upt)
  finally show ?thesis
    by (simp only: zip_by_index [OF assms(1)])
qed

lemma permuted_labels:
  assumes "mset order = mset [0..<length ls]"
  shows "mset (map ((!) ls) order) = mset ls"
proof -
  have "mset (map ((!) ls) order) = mset (map ((!) ls) [0..<length ls])"
    using assms by (simp del: mset_upt)
  then show ?thesis by (simp only: map_nth)
qed

lemma count_correct_permuted:
  assumes "length ps = length ls" and "mset order = mset [0..<length ps]"
  shows "count_correct nc (map ((!) ps) order) (map ((!) ls) order) = count_correct nc ps ls"
proof -
  have ml: "mset (map ((!) ls) order) = mset ls"
    using assms(2) unfolding assms(1) by (rule permuted_labels)
  then have sl: "set (map ((!) ls) order) = set ls"
    by (rule mset_eq_setD)
  have "count_list (map ((!) ls) order) c = count_list ls c" for c
    using ml by (metis count_mset)
  then have cl: "count_list (map ((!) ls) order) = count_list ls"
    by (rule ext)
  have cz: "count_list (zip (map ((!) ps) order) (map ((!) ls) order)) x = count_list (zip ps ls) x" for x
    using permuted_pairs [OF assms] by (metis count_mset)
  have "count_correct nc (map ((!) ps) order) (map ((!) ls) order) =
      (if \<forall>l\<in>set ls. l < nc
       then Inr (map (\<lambda>c. count_list (zip ps ls) (c, c)) [0..<nc], map (count_list ls) [0..<nc])
       else Inl OutOfBounds)"
    using count_correct_eq [of "map ((!) ps) order" "map ((!) ls) order" nc]
    by (simp only: length_map sl cl cz simp_thms if_True)
  then show ?thesis
    by (simp only: count_correct_eq [OF assms(1)])
qed

subsection \<open>Parameters that L-BFGS does not read\<close>

lemma HasParam_other:
  "name \<noteq> ''step_size'' \<Longrightarrow> name \<noteq> ''shuffle'' \<Longrightarrow>
     HasParam (p\<lparr>step_size := s, step_size_passed := b, shuffle := sh\<rparr>) name = HasParam p name"
  by (simp add: HasParam_def)

lemma load_labels_frame:
  "load_labels E (p\<lparr>step_size := s, step_size_passed := b, shuffle := sh\<rparr>) X = load_labels E p X"
  by (simp add: load_labels_def HasParam_other)

lemma train_block_frame:
  "optimizer p = ''lbfgs'' \<Longrightarrow>
     train_block E (p\<lparr>step_size := s, step_size_passed := b, shuffle := sh\<rparr>) m X L n =
     train_block E p m X L n"
  by (simp add: train_block_def HasParam_other)

lemma test_block_frame:
  "test_block E (p\<lparr>step_size := s, step_size_passed := b, shuffle := sh\<rparr>) m n =
     test_block E p m n"
  by (simp add: test_block_def HasParam_other)

lemma load_and_run_frame:
  "optimizer p = ''lbfgs'' \<Longrightarrow>
     load_and_run E (p\<lparr>step_size := s, step_size_passed := b, shuffle := sh\<rparr>) = load_and_run E p"
  by (simp add: load_and_run_def train_model_def load_labels_frame train_block_frame
      test_block_frame HasParam_other)

lemma params_ok_frame:
  "ge_zero (step_size p) \<Longrightarrow> ge_zero s \<Longrightarrow>
     params_ok (p\<lparr>step_size := s, step_size_passed := b, shuffle := sh\<rparr>) = params_ok p"
  by (simp add: params_ok_def)

lemma filter_warns: "list_all is_Warn es \<Longrightarrow> filter (\<lambda>e. \<not> is_Warn e) es = []"
  by (induction es) auto

subsection \<open>The example run\<close>

lemma example_facts:
  "training example_params = Some \<lparr>n_cols = 4, mat_rows = [[5, 6, 7, 8], [0, 0, 1, 2]]\<rparr>"
  "labels example_params = None" "params_ok example_params" "optimizer example_params = ''lbfgs''"
  "conv_to_size_t example_env = id"
  by (simp_all add: example_params_def example_env_def params_ok_def)

lemma example_trained:
  "snd (train_model example_env example_params) = Inr (example_trained, 3)"
  "snd (train_model example_env (example_params\<lparr>test_labels := x\<rparr>)) = Inr (example_trained, 3)"
  "snd (train_model example_env (example_params\<lparr>test := t\<rparr>)) = Inr (example_trained, 3)"
  by (simp_all add: train_model_def example_params_def example_env_def example_trained_def
      HasParam_def GetParam_mat_def load_labels_def Let_def n_rows_def shed_row_def row_def
      train_block_def snd_and_then NumberOfClasses_def size_t_of_int_def)

subsection \<open>The number of classes\<close>

lemma size_t_of_int_nat: "0 \<le> c \<Longrightarrow> c < 2 ^ 64 \<Longrightarrow> size_t_of_int c = nat c"
  by (simp add: size_t_of_int_def)

text \<open>
  C1. With \<open>number_of_classes\<close> left at 0 the class count is the number of distinct
  labels, which is 3 for the labels 0, 0, 1, 2; a positive \<open>number_of_classes\<close> is the
  class count as it is. The parameter is a C++ \<open>int\<close>, so its cast to \<open>size_t\<close> keeps a
  value that is not negative. In a run, the class count that \<open>Train\<close> is called with
  is the one so derived from the labels of the call.
\<close>

theorem NumberOfClasses_derived:
  "NumberOfClasses (size_t_of_int 0) labels_row = card (set labels_row) \<and>
   NumberOfClasses 0 [0, 0, 1, 2] = 3 \<and>
   (0 < c \<and> c < 2 ^ 31 \<longrightarrow> NumberOfClasses (size_t_of_int c) labels_row = nat c) \<and>
   (0 < n \<longrightarrow> NumberOfClasses n labels_row = n) \<and>
   (number_of_classes p < 2 ^ 31 \<longrightarrow>
      (\<forall>M ls nc opt. Train_call M ls nc opt \<in> set (fst (mlpackMain E p)) \<longrightarrow>
         nc = (if number_of_classes p = 0 then card (set ls) else nat (number_of_classes p))))"
proof -
  have cast: "0 \<le> x \<and> x < 2 ^ 31 \<longrightarrow> size_t_of_int x = nat x" for x
    by (auto intro!: size_t_of_int_nat)
  have three: "card (set [0, 0, 1, 2 :: nat]) = 3"
    by simp
  have run: "nc = (if number_of_classes p = 0 then card (set ls) else nat (number_of_classes p))"
    if small: "number_of_classes p < 2 ^ 31"
      and call: "Train_call M ls nc opt \<in> set (fst (mlpackMain E p))" for M ls nc opt
  proof -
    from main_Train_call [OF call] have "0 \<le> number_of_classes p"
      and "Train_call M ls nc opt \<in> set (fst (train_model E p))"
      by (simp_all add: params_ok_def)
    with small cast [of "number_of_classes p"] train_model_calls [of M ls nc opt E p]
    show ?thesis
      by (auto simp: NumberOfClasses_def)
  qed
  from cast [of c] three run show ?thesis
    by (auto simp: NumberOfClasses_def size_t_of_int_def)
qed

theorem NumberOfClasses_derived_witness:
  "NumberOfClasses (size_t_of_int 0) [4, 4, 7] = 2 \<and>
   NumberOfClasses (size_t_of_int 5) [4, 4, 7] = 5 \<and>
   NumberOfClasses 5 [4, 4, 7] = 5"
  using NumberOfClasses_derived [where labels_row = "[4, 4, 7]" and c = 5 and n = 5
      and p = example_params and E = example_env, THEN conjunct1]
    NumberOfClasses_derived [where labels_row = "[4, 4, 7]" and c = 5 and n = 5
      and p = example_params and E = example_env, THEN conjunct2, THEN conjunct2, THEN conjunct1]
    NumberOfClasses_derived [where labels_row = "[4, 4, 7]" and c = 5 and n = 5
      and p = example_params and E = example_env, THEN conjunct2, THEN conjunct2,
      THEN conjunct2, THEN conjunct1]
  by simp

subsection \<open>Rejected parameters\<close>

text \<open>
  C6. A run whose \<open>optimizer\<close> is neither \<open>lbfgs\<close> nor \<open>psgd\<close> ends at \<open>Log::Fatal\<close>,
  with nothing but warnings before it, so before any training or classification. When
  the checks that come earlier in the source pass, the message is the one of the
  optimizer check.
\<close>

theorem unknown_optimizer_fatal:
  assumes "optimizer p \<noteq> ''lbfgs''" and "optimizer p \<noteq> ''psgd''"
  shows "is_fatal (snd (mlpackMain E p)) \<and> list_all is_Warn (fst (mlpackMain E p)) \<and>
    ((training p \<noteq> None \<or> input_model p \<noteq> None) \<and> 0 \<le> max_iterations p \<and>
     ge_zero (tolerance p) \<longrightarrow>
       snd (mlpackMain E p) = Inl (Fatal ''unknown optimizer'' []))"
proof -
  from assms have bad: "\<not> params_ok p"
    by (simp add: params_ok_def)
  obtain e where e: "snd (check_params p) = Inl e" "snd (mlpackMain E p) = Inl e"
    using mlpackMain_rejected(1) [OF bad, of E] by auto
  have "e = Fatal ''unknown optimizer'' []"
    if "training p \<noteq> None \<or> input_model p \<noteq> None" "0 \<le> max_iterations p"
      "ge_zero (tolerance p)"
    using that assms e(1) by (simp add: snd_check_params)
  with e(2) mlpackMain_rejected(2,3) [OF bad, of E] show ?thesis
    by simp
qed

theorem unknown_optimizer_fatal_witness:
  "snd (mlpackMain example_env (example_params\<lparr>optimizer := ''sgd''\<rparr>)) =
     Inl (Fatal ''unknown optimizer'' []) \<and>
   list_all is_Warn (fst (mlpackMain example_env (example_params\<lparr>optimizer := ''sgd''\<rparr>)))"
  using unknown_optimizer_fatal [of "example_params\<lparr>optimizer := ''sgd''\<rparr>" example_env]
  by (simp add: example_params_def)

text \<open>
  C7. A run in which \<open>lambda\<close>, \<open>delta\<close>, \<open>tolerance\<close> or \<open>step_size\<close> is below zero, or
  \<open>max_iterations\<close> or \<open>number_of_classes\<close> is a negative integer, ends at \<open>Log::Fatal\<close>
  with nothing but warnings before it. Values that are zero or above pass all six
  checks; zero itself is such a value.
\<close>

theorem negative_parameter_fatal:
  "(is_negative (lambda p) \<or> is_negative (delta p) \<or> is_negative (tolerance p) \<or>
    is_negative (step_size p) \<or> max_iterations p < 0 \<or> number_of_classes p < 0 \<longrightarrow>
      is_fatal (snd (mlpackMain E p)) \<and> list_all is_Warn (fst (mlpackMain E p))) \<and>
   ((training p \<noteq> None \<or> input_model p \<noteq> None) \<and>
    (optimizer p = ''lbfgs'' \<or> optimizer p = ''psgd'') \<and>
    ge_zero (lambda p) \<and> ge_zero (delta p) \<and> ge_zero (tolerance p) \<and>
    ge_zero (step_size p) \<and> 0 \<le> max_iterations p \<and> 0 \<le> number_of_classes p \<longrightarrow>
      snd (check_params p) = Inr ()) \<and>
   ge_zero (Finite 0)"
proof -
  have neg: "is_negative x \<Longrightarrow> \<not> ge_zero x" for x
    by (cases x) auto
  have "\<not> params_ok p"
    if "is_negative (lambda p) \<or> is_negative (delta p) \<or> is_negative (tolerance p) \<or>
      is_negative (step_size p) \<or> max_iterations p < 0 \<or> number_of_classes p < 0"
    using that neg by (auto simp: params_ok_def)
  then show ?thesis
    using mlpackMain_rejected(2,3) [of p E] by (auto simp: check_params_ok params_ok_def)
qed

theorem negative_parameter_fatal_witness:
  "is_fatal (snd (mlpackMain example_env (example_params\<lparr>delta := Finite (- 1)\<rparr>))) \<and>
   snd (check_params example_params) = Inr ()"
  using negative_parameter_fatal [of "example_params\<lparr>delta := Finite (- 1)\<rparr>" example_env]
    negative_parameter_fatal [of example_params example_env]
  by (simp add: example_params_def)

subsection \<open>Labels and label counts\<close>

text \<open>
  C4. When the \<open>labels\<close> parameter is passed with a training matrix and its length
  differs from the number of columns of that matrix, the run ends at \<open>Log::Fatal\<close>
  with nothing but warnings before it, so before training; once the parameter checks
  pass, the message is the one about the labels. When \<open>test_labels\<close> is passed with
  a test matrix and its length differs from the number of columns of that matrix, the
  run ends at \<open>Log::Fatal\<close> and has reported no accuracy; the accuracy block itself
  ends with the message that carries the two counts.
\<close>

theorem label_count_mismatch_fatal:
  "(training p = Some X \<and> labels p = Some L \<and> n_cols X \<noteq> length L \<longrightarrow>
      is_fatal (snd (mlpackMain E p)) \<and> list_all is_Warn (fst (mlpackMain E p)) \<and>
      (params_ok p \<longrightarrow> snd (mlpackMain E p) =
         Inl (Fatal ''The labels must have the same number of points as the training dataset.'' []))) \<and>
   (test p = Some T \<and> test_labels p = Some L' \<and> n_cols T \<noteq> length L' \<longrightarrow>
      is_fatal (snd (mlpackMain E p)) \<and>
      list_all (\<lambda>e. \<not> is_accuracy e) (fst (mlpackMain E p)) \<and>
      accuracy_block T ps L' nc =
        ([], Inl (Fatal ''Test data given with test has % points, but labels in test_labels have % labels!''
           [n_cols T, length L'])))"
proof (cases "params_ok p")
  case False
  have "list_all (\<lambda>e. \<not> is_accuracy e) (fst (mlpackMain E p))"
    using mlpackMain_rejected(3) [OF False, of E] warn_not_accuracy
    unfolding list_all_iff by blast
  with mlpackMain_rejected(2,3) [OF False, of E] False show ?thesis
    by (simp add: accuracy_block_mismatch)
next
  case True
  note m = mlpackMain_accepted [OF True, of E]
  have w: "list_all (\<lambda>e. \<not> is_accuracy e) (fst (check_params p))"
    using check_params_warns [of p] warn_not_accuracy unfolding list_all_iff by blast
  show ?thesis
    using m w check_params_warns [of p]
    by (auto simp: train_model_labels_mismatch load_and_run_test_mismatch
        accuracy_block_mismatch)
qed

theorem label_count_mismatch_fatal_witness:
  "snd (mlpackMain example_env (example_params\<lparr>labels := Some [0, 1]\<rparr>)) =
     Inl (Fatal ''The labels must have the same number of points as the training dataset.'' []) \<and>
   is_fatal (snd (mlpackMain example_env (example_params\<lparr>test_labels := Some [0]\<rparr>)))"
  using label_count_mismatch_fatal [where p = "example_params\<lparr>labels := Some [0, 1]\<rparr>"
      and X = "\<lparr>n_cols = 4, mat_rows = [[5, 6, 7, 8], [0, 0, 1, 2]]\<rparr>" and L = "[0, 1]"
      and E = example_env]
    label_count_mismatch_fatal [where p = "example_params\<lparr>test_labels := Some [0]\<rparr>"
      and T = "\<lparr>n_cols = 2, mat_rows = [[1, 2]]\<rparr>" and L' = "[0]" and E = example_env]
  by (simp add: example_params_def params_ok_def)


text \<open>
  C5. In a run with a training matrix and no \<open>labels\<close> parameter: a matrix of fewer
  than 2 rows ends the run at \<open>Log::Fatal\<close>; every call of \<open>Train\<close> gets the matrix
  without its last row, so with one row fewer, and gets as labels the last row
  converted to \<open>size_t\<close>; and when the parameter checks pass and the build can run
  the chosen optimizer, that call is made.
\<close>

theorem labels_from_last_row:
  assumes "training p = Some X" and "labels p = None"
  shows "(n_rows X < 2 \<longrightarrow>
      is_fatal (snd (mlpackMain E p)) \<and> list_all is_Warn (fst (mlpackMain E p))) \<and>
    (\<forall>M ls nc opt. Train_call M ls nc opt \<in> set (fst (mlpackMain E p)) \<longrightarrow>
      2 \<le> n_rows X \<and> M = shed_row X (n_rows X - 1) \<and>
      mat_rows M = butlast (mat_rows X) \<and> n_cols M = n_cols X \<and>
      ls = map (conv_to_size_t E) (last (mat_rows X)) \<and> Suc (n_rows M) = n_rows X) \<and>
    (2 \<le> n_rows X \<and> params_ok p \<and> (optimizer p = ''lbfgs'' \<or> has_openmp E) \<longrightarrow>
      (\<exists>nc opt. Train_call (shed_row X (n_rows X - 1))
         (map (conv_to_size_t E) (last (mat_rows X))) nc opt \<in> set (fst (mlpackMain E p))))"
proof (intro conjI impI allI)
  assume small: "n_rows X < 2"
  show "is_fatal (snd (mlpackMain E p))" "list_all is_Warn (fst (mlpackMain E p))"
  proof -
    have f: "load_and_run E p =
        ([], Inl (Fatal ''Can't get labels from training data since it has less than 2 rows.'' []))"
    proof -
      have "snd (load_labels E p X) =
          Inl (Fatal ''Can't get labels from training data since it has less than 2 rows.'' [])"
        using assms small by (simp add: load_labels_last_row)
      then have "train_model E p =
          ([], Inl (Fatal ''Can't get labels from training data since it has less than 2 rows.'' []))"
        using assms(1) unfolding train_model_def Let_def
        by (simp add: HasParam_def GetParam_mat_def and_then_fails fst_load_labels)
      then show ?thesis
        unfolding load_and_run_def by (simp add: and_then_fails)
    qed
    show "is_fatal (snd (mlpackMain E p))"
      using mlpackMain_rejected(2) [of p E] mlpackMain_accepted [of p E] f
      by (cases "params_ok p") simp_all
    show "list_all is_Warn (fst (mlpackMain E p))"
      using mlpackMain_rejected(3) [of p E] mlpackMain_accepted [of p E] f
        check_params_warns [of p]
      by (cases "params_ok p") simp_all
  qed
next
  fix M ls nc opt
  assume "Train_call M ls nc opt \<in> set (fst (mlpackMain E p))"
  then have "Train_call M ls nc opt \<in> set (fst (train_model E p))"
    using main_Train_call by blast
  from train_model_calls [OF this] assms
  have ld: "snd (load_labels E p X) = Inr (M, ls)"
    by auto
  then have big: "2 \<le> n_rows X" and M: "M = shed_row X (n_rows X - 1)"
    and ls: "ls = map (conv_to_size_t E) (row X (n_rows X - 1))"
    using assms by (auto simp: load_labels_last_row split: if_splits)
  from big have "1 \<le> n_rows X" by simp
  from shed_last_row [OF this] big M ls
  show "2 \<le> n_rows X" "M = shed_row X (n_rows X - 1)" "mat_rows M = butlast (mat_rows X)"
    "n_cols M = n_cols X" "ls = map (conv_to_size_t E) (last (mat_rows X))"
    "Suc (n_rows M) = n_rows X"
    by simp_all
next
  assume a: "2 \<le> n_rows X \<and> params_ok p \<and> (optimizer p = ''lbfgs'' \<or> has_openmp E)"
  then have "1 \<le> n_rows X" by simp
  from shed_last_row [OF this] a assms
  have "snd (load_labels E p X) =
      Inr (shed_row X (n_rows X - 1), map (conv_to_size_t E) (last (mat_rows X)))"
    by (simp add: load_labels_last_row)
  from main_trains [OF _ assms(1) this] a
  show "\<exists>nc opt. Train_call (shed_row X (n_rows X - 1))
      (map (conv_to_size_t E) (last (mat_rows X))) nc opt \<in> set (fst (mlpackMain E p))"
    by simp
qed

theorem labels_from_last_row_witness:
  "(\<exists>nc opt. Train_call \<lparr>n_cols = 4, mat_rows = [[5, 6, 7, 8]]\<rparr> [0, 0, 1, 2] nc opt
      \<in> set (fst (mlpackMain example_env example_params))) \<and>
   is_fatal (snd (mlpackMain example_env
     (example_params\<lparr>training := Some \<lparr>n_cols = 4, mat_rows = [[0, 0, 1, 2]]\<rparr>\<rparr>)))"
proof
  show "\<exists>nc opt. Train_call \<lparr>n_cols = 4, mat_rows = [[5, 6, 7, 8]]\<rparr> [0, 0, 1, 2] nc opt
      \<in> set (fst (mlpackMain example_env example_params))"
    using labels_from_last_row [where p = example_params and E = example_env,
        OF example_facts(1,2), THEN conjunct2, THEN conjunct2]
    by (simp add: example_facts n_rows_def shed_row_def)
  have "training (example_params\<lparr>training := Some \<lparr>n_cols = 4, mat_rows = [[0, 0, 1, 2]]\<rparr>\<rparr>) =
      Some \<lparr>n_cols = 4, mat_rows = [[0, 0, 1, 2 :: nat]]\<rparr>"
    "labels (example_params\<lparr>training := Some \<lparr>n_cols = 4, mat_rows = [[0, 0, 1, 2]]\<rparr>\<rparr>) = None"
    by (simp_all add: example_facts)
  from labels_from_last_row [where E = example_env, OF this, THEN conjunct1]
  show "is_fatal (snd (mlpackMain example_env
     (example_params\<lparr>training := Some \<lparr>n_cols = 4, mat_rows = [[0, 0, 1, 2]]\<rparr>\<rparr>)))"
    by (simp add: n_rows_def)
qed

subsection \<open>The dimensionality of the test matrix\<close>

text \<open>
  C3 (as amended). Take a run that passes the parameter checks, has a test matrix and
  reaches the test block with some model, the parameter matrix having fewer than
  \<open>2 ^ 64\<close> rows and the test matrix fewer than \<open>2 ^ 64 - 1\<close>, as values of \<open>size_t\<close> do.
  The run ends with the fatal message of the dimensionality check exactly when the
  row count of the test matrix differs from the row count of the model's parameter
  matrix minus one, and \<open>Classify\<close> is called exactly when the two are equal. The run
  as a whole ends at \<open>Log::Fatal\<close> exactly when that check fails or the test labels
  are passed and their count differs from the column count of the test matrix.
\<close>

theorem test_dimensionality_check:
  assumes "test p = Some T" and "params_ok p" and "snd (train_model E p) = Inr (model, nc)"
    and "n_rows T < 2 ^ 64 - 1" and "n_rows (Parameters model) < 2 ^ 64"
  shows "(snd (mlpackMain E p) =
        Inl (Fatal dimensionality_message [n_rows T, size_t_minus (n_rows (Parameters model)) 1])
      \<longleftrightarrow> int (n_rows T) \<noteq> int (n_rows (Parameters model)) - 1) \<and>
    (Classify_call T \<in> set (fst (mlpackMain E p))
      \<longleftrightarrow> int (n_rows T) = int (n_rows (Parameters model)) - 1) \<and>
    (is_fatal (snd (mlpackMain E p))
      \<longleftrightarrow> int (n_rows T) \<noteq> int (n_rows (Parameters model)) - 1 \<or>
        (\<exists>L. test_labels p = Some L \<and> n_cols T \<noteq> length L))"
proof (cases "n_rows T = size_t_minus (n_rows (Parameters model)) 1")
  case True
  then have eq: "int (n_rows T) = int (n_rows (Parameters model)) - 1"
    using size_t_minus_one [OF assms(4,5)] by simp
  note tb = test_block_dims_equal [OF assms(1) True, of E nc]
  have "Classify_call T \<in> set (fst (mlpackMain E p))"
    using tb(1) by (simp add: main_tested(1) [OF assms(2,3)])
  with eq tb(2,3) show ?thesis
    by (simp add: main_tested(2,3) [OF assms(2,3)])
next
  case False
  then have ne: "int (n_rows T) \<noteq> int (n_rows (Parameters model)) - 1"
    using size_t_minus_one [OF assms(4,5)] by simp
  note tb = test_block_dims_differ [OF assms(1) False, of E nc]
  have "Classify_call T \<notin> set (fst (check_params p))"
    using check_params_warns [of p] by (auto simp: list_all_iff)
  moreover have "Classify_call T \<notin> set (fst (train_model E p))"
    using train_model_events [of "Classify_call T" E p] by auto
  ultimately have "Classify_call T \<notin> set (fst (mlpackMain E p))"
    using tb by (simp add: main_tested(1) [OF assms(2,3)])
  with ne tb show ?thesis
    by (simp add: main_tested(2,3) [OF assms(2,3)])
qed


theorem test_dimensionality_check_witness:
  "Classify_call \<lparr>n_cols = 2, mat_rows = [[1, 2]]\<rparr>
     \<in> set (fst (mlpackMain example_env example_params)) \<and>
   \<not> is_fatal (snd (mlpackMain example_env example_params)) \<and>
   snd (mlpackMain example_env
       (example_params\<lparr>test := Some \<lparr>n_cols = 2, mat_rows = [[1, 2], [3, 4]]\<rparr>\<rparr>)) =
     Inl (Fatal dimensionality_message [2, 1])"
proof -
  have "test example_params = Some \<lparr>n_cols = 2, mat_rows = [[1, 2]]\<rparr>"
    by (simp add: example_params_def)
  from test_dimensionality_check [OF this example_facts(3) example_trained(1)]
  have 1: "Classify_call \<lparr>n_cols = 2, mat_rows = [[1, 2]]\<rparr>
       \<in> set (fst (mlpackMain example_env example_params)) \<and>
     \<not> is_fatal (snd (mlpackMain example_env example_params))"
    by (simp add: n_rows_def example_trained_def example_params_def)
  have "test (example_params\<lparr>test := Some \<lparr>n_cols = 2, mat_rows = [[1, 2], [3, 4]]\<rparr>\<rparr>) =
      Some \<lparr>n_cols = 2, mat_rows = [[1, 2], [3, 4 :: nat]]\<rparr>"
    "params_ok (example_params\<lparr>test := Some \<lparr>n_cols = 2, mat_rows = [[1, 2], [3, 4]]\<rparr>\<rparr>)"
    using example_facts(3) by (simp_all add: params_ok_def)
  from test_dimensionality_check [OF this example_trained(3)]
  have 2: "snd (mlpackMain example_env
       (example_params\<lparr>test := Some \<lparr>n_cols = 2, mat_rows = [[1, 2], [3, 4]]\<rparr>\<rparr>)) =
     Inl (Fatal dimensionality_message [2, 1])"
    by (simp add: n_rows_def example_trained_def size_t_minus_def)
  from 1 2 show ?thesis by simp
qed

text \<open>
  The claim as stated, a fatal end if and only if the dimensions differ, fails: the run
  below has a test matrix of one row and a model of two parameter rows, and still ends
  at \<open>Log::Fatal\<close>, at the check of the number of test labels.
\<close>

theorem fatal_with_equal_dimensions:
  "test (example_params\<lparr>test_labels := Some [0]\<rparr>) = Some \<lparr>n_cols = 2, mat_rows = [[1, 2]]\<rparr> \<and>
   snd (train_model example_env (example_params\<lparr>test_labels := Some [0]\<rparr>)) =
     Inr (example_trained, 3) \<and>
   int (n_rows \<lparr>n_cols = 2, mat_rows = [[1, 2 :: nat]]\<rparr>) =
     int (n_rows (Parameters example_trained)) - 1 \<and>
   is_fatal (snd (mlpackMain example_env (example_params\<lparr>test_labels := Some [0]\<rparr>)))"
proof -
  have "is_fatal (snd (mlpackMain example_env (example_params\<lparr>test_labels := Some [0]\<rparr>)))"
    by code_simp
  moreover have "test (example_params\<lparr>test_labels := Some [0]\<rparr>) =
      Some \<lparr>n_cols = 2, mat_rows = [[1, 2]]\<rparr>"
    by (simp add: example_params_def)
  moreover have "int (n_rows \<lparr>n_cols = 2, mat_rows = [[1, 2 :: nat]]\<rparr>) =
      int (n_rows (Parameters example_trained)) - 1"
    by (simp add: n_rows_def example_trained_def)
  ultimately show ?thesis
    using example_trained(2) [of "Some [0]"] by blast
qed

subsection \<open>The accuracy report\<close>

text \<open>
  C2 (as amended). Take predictions and test labels of the same length, every test
  label being below the number of classes. The accuracy block then reports, for each
  class, the quotient of the correct predictions of the class by the test labels of
  the class, and in total the quotient of the number of points whose prediction equals
  the label by the number of predictions. The counts of the classes add up to that
  number. The quotient of a class that occurs among the test labels lies between 0 and
  1, and so does the total when there is at least one prediction; the quotient of a
  class with no test label, and the total of no predictions, is \<open>0 / 0\<close>, which is NaN.
\<close>

theorem accuracy_report:
  assumes "length ps = length ls" and "n_cols T = length ls" and "\<forall>l\<in>set ls. l < nc"
  shows "accuracy_block T ps ls nc =
      (map (\<lambda>c. ClassAccuracy c (count_quotient (hits_of_class ps ls c) (count_list ls c))
                  (hits_of_class ps ls c) (count_list ls c)) [0..<nc] @
       [TotalAccuracy (count_quotient (hits ps ls) (length ps)) (hits ps ls) (length ps)],
       Inr ()) \<and>
    sum_list (map (hits_of_class ps ls) [0..<nc]) = hits ps ls \<and>
    (\<forall>c<nc. c \<in> set ls \<longrightarrow>
       in_unit_interval (count_quotient (hits_of_class ps ls c) (count_list ls c))) \<and>
    (\<forall>c<nc. c \<notin> set ls \<longrightarrow>
       count_quotient (hits_of_class ps ls c) (count_list ls c) = NaN) \<and>
    (ps \<noteq> [] \<longrightarrow> in_unit_interval (count_quotient (hits ps ls) (length ps))) \<and>
    (ps = [] \<longrightarrow> count_quotient (hits ps ls) (length ps) = NaN)"
proof -
  let ?b = "map (hits_of_class ps ls) [0..<nc]"
  let ?s = "map (count_list ls) [0..<nc]"
  have sum: "sum_list ?b = hits ps ls"
    using assms(1,3) by (rule sum_hits_of_class)
  have cc: "count_correct nc ps ls = Inr (?b, ?s)"
    using assms(3) by (simp add: count_correct_eq [OF assms(1)] hits_of_class_def)
  have "report_accuracy ?b ?s (length ps) =
      map (\<lambda>c. ClassAccuracy c (count_quotient (hits_of_class ps ls c) (count_list ls c))
                  (hits_of_class ps ls c) (count_list ls c)) [0..<nc] @
      [TotalAccuracy (count_quotient (hits ps ls) (length ps)) (hits ps ls) (length ps)]"
    unfolding report_accuracy_eq sum by simp
  with cc assms(2) have block: "accuracy_block T ps ls nc =
      (map (\<lambda>c. ClassAccuracy c (count_quotient (hits_of_class ps ls c) (count_list ls c))
                  (hits_of_class ps ls c) (count_list ls c)) [0..<nc] @
       [TotalAccuracy (count_quotient (hits ps ls) (length ps)) (hits ps ls) (length ps)],
       Inr ())"
    by (simp add: accuracy_block_def run_if_def and_then_def result_def)
  have le: "hits_of_class ps ls c \<le> count_list ls c" for c
    unfolding hits_of_class_def using assms(1) by (rule count_zip_le)
  have unit: "in_unit_interval (count_quotient (hits_of_class ps ls c) (count_list ls c))"
    if "c \<in> set ls" for c
  proof -
    from that have "0 < count_list ls c"
      using count_list_0_iff [of ls c] by simp
    then show ?thesis using le by (rule quotient_in_unit)
  qed
  have nan: "count_quotient (hits_of_class ps ls c) (count_list ls c) = NaN"
    if "c \<notin> set ls" for c
  proof -
    from that have "count_list ls c = 0"
      by (simp add: count_list_0_iff)
    with le [of c] show ?thesis by (simp add: count_quotient_def)
  qed
  have total: "in_unit_interval (count_quotient (hits ps ls) (length ps))" if "ps \<noteq> []"
    using that hits_le [of ps ls] by (intro quotient_in_unit) simp_all
  have empty: "count_quotient (hits ps ls) (length ps) = NaN" if "ps = []"
    using that by (simp add: count_quotient_def hits_def)
  from block sum unit nan total empty show ?thesis
    by blast
qed

theorem accuracy_report_witness:
  "accuracy_block \<lparr>n_cols = 3, mat_rows = [[1, 2, 3 :: nat]]\<rparr> [0, 1, 1] [0, 1, 0] 2 =
     ([ClassAccuracy 0 (Finite (1 / 2)) 1 2, ClassAccuracy 1 (Finite 1) 1 1,
       TotalAccuracy (Finite (2 / 3)) 2 3], Inr ()) \<and>
   in_unit_interval (Finite (1 / 2)) \<and> in_unit_interval (Finite 1) \<and>
   in_unit_interval (Finite (2 / 3))"
  using accuracy_report [of "[0, 1, 1]" "[0, 1, 0]" "\<lparr>n_cols = 3, mat_rows = [[1, 2, 3 :: nat]]\<rparr>" 2]
  by (simp add: hits_of_class_def hits_def count_quotient_def upt_rec numeral_2_eq_2)

text \<open>
  The claim as stated fails for a class with no test label: with two classes and two
  points of label 0, the line of class 1 reports \<open>0 / 0\<close>. The run of the example with
  test labels 0, 0 does so too, its three classes being derived from the training labels.
\<close>

theorem accuracy_of_absent_class:
  "fst (accuracy_block \<lparr>n_cols = 2, mat_rows = [[1, 2 :: nat]]\<rparr> [0, 0] [0, 0] 2) =
     [ClassAccuracy 0 (Finite 1) 2 2, ClassAccuracy 1 NaN 0 0, TotalAccuracy (Finite 1) 2 2] \<and>
   \<not> in_unit_interval NaN \<and>
   ClassAccuracy 1 NaN 0 0 \<in>
     set (fst (mlpackMain example_env (example_params\<lparr>test_labels := Some [0, 0]\<rparr>)))"
proof -
  have "ClassAccuracy 1 NaN 0 0 \<in>
      set (fst (mlpackMain example_env (example_params\<lparr>test_labels := Some [0, 0]\<rparr>)))"
    by code_simp
  then show ?thesis
    by (simp add: accuracy_block_def run_if_def and_then_def result_def count_correct_def
        count_step_def report_accuracy_def report_step_def count_quotient_def upt_rec
        numeral_2_eq_2)
qed

subsection \<open>Bounds of the counters\<close>

text \<open>
  C9. The claim does not hold of the code. In a run that loads a model, passes no
  training matrix and leaves \<open>number_of_classes\<close> at 0, the number of classes is
  derived from the empty label vector and is 0, the two counter vectors are empty, and
  the first round of the counting loop indexes past their end.
\<close>

theorem model_only_run_out_of_bounds:
  "snd (mlpackMain example_env
     (example_params\<lparr>training := None, input_model := Some example_trained,
        test_labels := Some [0, 0]\<rparr>)) = Inl OutOfBounds \<and>
   NumberOfClasses (size_t_of_int (number_of_classes example_params)) [] = 0"
  by code_simp

subsection \<open>Order of the points\<close>

text \<open>
  C8. The number of classes is the same for a label vector and any permutation of it.
  When the predictions and the test labels are both rearranged by the same permutation
  \<open>order\<close> of their indices, the counting loop returns the same per-class counts (or
  the same error), and the accuracy block as a whole, with its per-class and total
  lines, is the same.
\<close>

theorem order_independent:
  "(mset labels' = mset labels_row \<longrightarrow>
      NumberOfClasses n labels' = NumberOfClasses n labels_row) \<and>
   (length ps = length ls \<and> mset order = mset [0..<length ps] \<longrightarrow>
      count_correct nc (map ((!) ps) order) (map ((!) ls) order) = count_correct nc ps ls \<and>
      accuracy_block T (map ((!) ps) order) (map ((!) ls) order) nc = accuracy_block T ps ls nc)"
proof (intro conjI impI)
  assume "mset labels' = mset labels_row"
  then have "set labels' = set labels_row"
    by (rule mset_eq_setD)
  then show "NumberOfClasses n labels' = NumberOfClasses n labels_row"
    by (simp add: NumberOfClasses_def)
next
  assume a: "length ps = length ls \<and> mset order = mset [0..<length ps]"
  then show cc: "count_correct nc (map ((!) ps) order) (map ((!) ls) order) = count_correct nc ps ls"
    by (simp add: count_correct_permuted)
  from a have "size (mset order) = size (mset [0..<length ps])"
    by simp
  then have lo: "length order = length ps"
    by (simp del: mset_upt)
  from a show "accuracy_block T (map ((!) ps) order) (map ((!) ls) order) nc =
      accuracy_block T ps ls nc"
    unfolding accuracy_block_def cc length_map lo by simp
qed

theorem order_independent_witness:
  "NumberOfClasses 0 [2, 0, 1, 0] = NumberOfClasses 0 [0, 0, 1, 2] \<and>
   count_correct 2 [1, 1, 0] [0, 1, 0] = count_correct 2 [0, 1, 1] [0, 1, 0]"
  using order_independent [where labels' = "[2, 0, 1, 0]" and labels_row = "[0, 0, 1, 2]"
      and n = 0 and ps = "[0, 1, 1]" and ls = "[0, 1, 0]" and order = "[2, 1, 0]" and nc = 2
      and T = "\<lparr>n_cols = 3, mat_rows = [[1, 2, 3 :: nat]]\<rparr>"]
  by (simp del: mset_upt add: upt_rec)

subsection \<open>\<open>step_size\<close> and \<open>shuffle\<close> under L-BFGS\<close>

text \<open>
  C10 (as amended). Take a run with the optimizer \<open>lbfgs\<close> and a second run that
  differs from it only in \<open>step_size\<close> and \<open>shuffle\<close>, the step size being zero or above
  in both. The two runs end with the same result, so with the same trained model, and
  their traces differ in warnings only. Every call of \<open>Train\<close> gets an L-BFGS optimizer
  made from \<open>max_iterations\<close> and \<open>tolerance\<close> alone.
\<close>

theorem lbfgs_ignores_step_size_and_shuffle:
  assumes "optimizer p = ''lbfgs''" and "ge_zero (step_size p)" and "ge_zero s"
  shows "snd (mlpackMain E (p\<lparr>step_size := s, step_size_passed := b, shuffle := sh\<rparr>)) =
      snd (mlpackMain E p) \<and>
    filter (\<lambda>e. \<not> is_Warn e)
        (fst (mlpackMain E (p\<lparr>step_size := s, step_size_passed := b, shuffle := sh\<rparr>))) =
      filter (\<lambda>e. \<not> is_Warn e) (fst (mlpackMain E p)) \<and>
    (\<forall>M ls nc opt. Train_call M ls nc opt \<in> set (fst (mlpackMain E p)) \<longrightarrow>
       opt = L_BFGS (size_t_of_int (max_iterations p)) (tolerance p))"
proof -
  let ?p = "p\<lparr>step_size := s, step_size_passed := b, shuffle := sh\<rparr>"
  have ok: "params_ok ?p = params_ok p"
    using assms(2,3) by (rule params_ok_frame)
  have run: "load_and_run E ?p = load_and_run E p"
    using assms(1) by (rule load_and_run_frame)
  have same: "snd (mlpackMain E ?p) = snd (mlpackMain E p) \<and>
      filter (\<lambda>e. \<not> is_Warn e) (fst (mlpackMain E ?p)) =
      filter (\<lambda>e. \<not> is_Warn e) (fst (mlpackMain E p))"
  proof (cases "params_ok p")
    case True
    with ok have "params_ok ?p" by simp
    from mlpackMain_accepted [OF this, of E] mlpackMain_accepted [OF True, of E] run
    show ?thesis
      by (simp add: filter_warns check_params_warns)
  next
    case False
    with ok have bad: "\<not> params_ok ?p" by simp
    have "snd (check_params ?p) = snd (check_params p)"
      using assms(2,3) by (simp add: snd_check_params)
    moreover obtain e where "snd (check_params p) = Inl e" "snd (mlpackMain E p) = Inl e"
      using mlpackMain_rejected(1) [OF False, of E] by auto
    moreover obtain e' where "snd (check_params ?p) = Inl e'" "snd (mlpackMain E ?p) = Inl e'"
      using mlpackMain_rejected(1) [OF bad, of E] by auto
    ultimately have "snd (mlpackMain E ?p) = snd (mlpackMain E p)"
      by simp
    with mlpackMain_rejected(3) [OF False, of E] mlpackMain_rejected(3) [OF bad, of E]
    show ?thesis
      by (simp add: filter_warns)
  qed
  have "opt = L_BFGS (size_t_of_int (max_iterations p)) (tolerance p)"
    if "Train_call M ls nc opt \<in> set (fst (mlpackMain E p))" for M ls nc opt
    using train_model_calls [of M ls nc opt E p] main_Train_call [OF that] assms(1) by auto
  with same show ?thesis
    by blast
qed

theorem lbfgs_ignores_step_size_and_shuffle_witness:
  "snd (mlpackMain example_env
      (example_params\<lparr>step_size := Finite 5, step_size_passed := True, shuffle := True\<rparr>)) =
    snd (mlpackMain example_env example_params)"
  using lbfgs_ignores_step_size_and_shuffle [of example_params "Finite 5" example_env True True]
  by (simp add: example_facts example_params_def)

text \<open>
  The claim as stated fails for a step size below zero: the check of \<open>step_size\<close> is
  made whatever the optimizer is, so with \<open>lbfgs\<close> the run with step size \<open>-1\<close> ends
  at \<open>Log::Fatal\<close> where the run with step size 0 trains a model.
\<close>

theorem negative_step_size_rejected_with_lbfgs:
  "optimizer example_params = ''lbfgs'' \<and>
   snd (mlpackMain example_env (example_params\<lparr>step_size := Finite (- 1)\<rparr>)) =
     Inl (Fatal ''step size must be positive'' []) \<and>
   snd (mlpackMain example_env (example_params\<lparr>step_size := Finite (- 1)\<rparr>)) \<noteq>
     snd (mlpackMain example_env example_params)"
  by code_simp

end
